theory Spec2Isabelle
  imports Main
begin

section \<open>SenteChainAI: credit registry, lending pool and badge contracts\<close>

text \<open>
  A shallow embedding of the three Solidity contracts \<^verbatim>\<open>CreditScoreRegistry.sol\<close>,
  \<^verbatim>\<open>LendingPool.sol\<close> and \<^verbatim>\<open>SenteBadge.sol\<close>.

  \<^item> An \<^verbatim>\<open>address\<close> is a natural number; \<open>0\<close> is \<^verbatim>\<open>address(0)\<close>.
  \<^item> \<^verbatim>\<open>uint256\<close> and \<^verbatim>\<open>uint8\<close> values are natural numbers. The contracts are compiled
    with Solidity 0.8, whose arithmetic is checked: an addition or multiplication that
    leaves the type's range and a subtraction below zero abort the call with a panic.
    Each such operation is written with its range check and the result \<open>Inl Panic\<close>.
  \<^item> A \<^verbatim>\<open>mapping\<close> is a total function (every key holds the zero value until written).
  \<^item> \<^verbatim>\<open>msg.sender\<close> and \<^verbatim>\<open>block.timestamp\<close> are the parameters \<open>sender\<close> and \<open>now\<close>.
  \<^item> An external function returns \<open>error + state\<close>. \<open>Inl e\<close> is a revert: the EVM discards
    every storage write the call made, so the state after a reverted call is the state
    before it (\<open>commit\<close> below). Events do not feed back into storage and are left out;
    so is the reentrancy guard, since no modelled callee calls back into the pool.
\<close>

type_synonym address = nat

definition MAX_UINT256 :: nat where
  "MAX_UINT256 = 2 ^ 256 - 1"

definition MAX_UINT8 :: nat where
  "MAX_UINT8 = 255"

datatype error =
    Unauthorized            \<comment> \<open>AccessControl / Ownable / "Not authorized to mint"\<close>
  | AlreadyExists           \<comment> \<open>"Profile already exists"\<close>
  | InvalidScore            \<comment> \<open>"Invalid score"\<close>
  | NoProfile               \<comment> \<open>"Profile does not exist"\<close>
  | InvalidAmount           \<comment> \<open>"Amount must be greater than 0"\<close>
  | InsufficientBalance     \<comment> \<open>"Insufficient balance"\<close>
  | InsufficientLiquidity   \<comment> \<open>"Insufficient pool liquidity"\<close>
  | AmountTooLow            \<comment> \<open>"Amount too low"\<close>
  | AmountTooHigh           \<comment> \<open>"Amount exceeds maximum"\<close>
  | ActiveLoanExists        \<comment> \<open>"Active loan exists"\<close>
  | CreditScoreTooLow       \<comment> \<open>"Credit score too low" (LendingPool.requestLoan)\<close>
  | InvalidLoanId           \<comment> \<open>"Invalid loan ID"\<close>
  | LoanNotActive           \<comment> \<open>"Loan not active"\<close>
  | LoanAlreadyRepaid       \<comment> \<open>"Loan already repaid"\<close>
  | NotLoanOwner            \<comment> \<open>"Not loan owner"\<close>
  | Defaulted               \<comment> \<open>"Loan defaulted - past grace period"\<close>
  | InvalidBadgeAddress     \<comment> \<open>"Invalid badge address"\<close>
  | InvalidMinterAddress    \<comment> \<open>"Invalid minter address"\<close>
  | ZeroAddress             \<comment> \<open>"Cannot mint to zero address"\<close>
  | AlreadyHasCredential    \<comment> \<open>"Address already has a badge"\<close>
  | ScoreTooLow             \<comment> \<open>"Credit score too low" (SenteBadge.mintBadge)\<close>
  | NonTransferable         \<comment> \<open>"SenteBadge: Soulbound token cannot be transferred"\<close>
  | ERC721InvalidOwner
  | ERC721InvalidReceiver
  | ERC721InvalidSender
  | ERC20InvalidSender
  | ERC20InvalidReceiver
  | ERC20InvalidApprover
  | ERC20InvalidSpender
  | ERC20InsufficientBalance
  | ERC20InsufficientAllowance
  | Panic                   \<comment> \<open>checked arithmetic left the integer range\<close>

definition commit :: "'s \<Rightarrow> error + 's \<Rightarrow> 's" where
  "commit s r = (case r of Inl e \<Rightarrow> s | Inr s' \<Rightarrow> s')"


subsection \<open>CreditScoreRegistry\<close>

definition MIN_SCORE :: nat where "MIN_SCORE = 0"
definition MAX_SCORE :: nat where "MAX_SCORE = 100"
definition DEFAULT_SCORE :: nat where "DEFAULT_SCORE = 50"

record CreditProfile =
  score :: nat
  lastUpdated :: nat
  totalLoans :: nat
  successfulRepayments :: nat
  defaultedLoans :: nat
  isActive :: bool

text \<open>
  The role table of OpenZeppelin's \<^verbatim>\<open>AccessControl\<close> is kept as two predicates: who holds
  \<^verbatim>\<open>ORACLE_ROLE\<close> and who holds \<^verbatim>\<open>DEFAULT_ADMIN_ROLE\<close> (the admin of every role).
\<close>

record Registry =
  creditProfiles :: "address \<Rightarrow> CreditProfile"
  hasOracleRole :: "address \<Rightarrow> bool"
  hasAdminRole :: "address \<Rightarrow> bool"

definition noProfile :: CreditProfile where
  "noProfile = \<lparr>score = 0, lastUpdated = 0, totalLoans = 0, successfulRepayments = 0,
                defaultedLoans = 0, isActive = False\<rparr>"

definition grantOracleRole :: "Registry \<Rightarrow> address \<Rightarrow> address \<Rightarrow> error + Registry" where
  "grantOracleRole r sender account =
     (if \<not> hasAdminRole r sender then Inl Unauthorized
      else Inr (r\<lparr>hasOracleRole := (hasOracleRole r)(account := True)\<rparr>))"

definition createProfile ::
  "Registry \<Rightarrow> address \<Rightarrow> nat \<Rightarrow> address \<Rightarrow> nat \<Rightarrow> error + Registry" where
  "createProfile r sender now user initialScore =
     (if \<not> hasOracleRole r sender then Inl Unauthorized
      else if isActive (creditProfiles r user) then Inl AlreadyExists
      else if \<not> (initialScore \<ge> MIN_SCORE \<and> initialScore \<le> MAX_SCORE) then Inl InvalidScore
      else Inr (r\<lparr>creditProfiles := (creditProfiles r)(user :=
             \<lparr>score = initialScore, lastUpdated = now, totalLoans = 0,
              successfulRepayments = 0, defaultedLoans = 0, isActive = True\<rparr>)\<rparr>))"

text \<open>
  For a principal without a profile \<^verbatim>\<open>updateScore\<close> hands over to \<^verbatim>\<open>createProfile\<close>, with
  the same sender and so under the same role check.
\<close>

definition updateScore ::
  "Registry \<Rightarrow> address \<Rightarrow> nat \<Rightarrow> address \<Rightarrow> nat \<Rightarrow> error + Registry" where
  "updateScore r sender now user newScore =
     (if \<not> hasOracleRole r sender then Inl Unauthorized
      else if \<not> (newScore \<ge> MIN_SCORE \<and> newScore \<le> MAX_SCORE) then Inl InvalidScore
      else if \<not> isActive (creditProfiles r user) then createProfile r sender now user newScore
      else Inr (r\<lparr>creditProfiles := (creditProfiles r)(user :=
             (creditProfiles r user)\<lparr>score := newScore, lastUpdated := now\<rparr>)\<rparr>))"

definition recordLoan :: "Registry \<Rightarrow> address \<Rightarrow> nat \<Rightarrow> address \<Rightarrow> error + Registry" where
  "recordLoan r sender now user =
     (let p = creditProfiles r user in
      if \<not> hasOracleRole r sender then Inl Unauthorized
      else if \<not> isActive p then Inl NoProfile
      else if totalLoans p \<ge> MAX_UINT256 then Inl Panic
      else Inr (r\<lparr>creditProfiles := (creditProfiles r)(user :=
             p\<lparr>totalLoans := totalLoans p + 1\<rparr>)\<rparr>))"

definition recordRepayment :: "Registry \<Rightarrow> address \<Rightarrow> nat \<Rightarrow> address \<Rightarrow> error + Registry" where
  "recordRepayment r sender now user =
     (let p = creditProfiles r user in
      if \<not> hasOracleRole r sender then Inl Unauthorized
      else if \<not> isActive p then Inl NoProfile
      else if successfulRepayments p \<ge> MAX_UINT256 then Inl Panic
      else
        let p1 = p\<lparr>successfulRepayments := successfulRepayments p + 1\<rparr>;
            currentScore = score p1;
            improvement = 2
        in if currentScore < MAX_SCORE then
             (if currentScore + improvement > MAX_UINT8 then Inl Panic
              else
                let newScore = currentScore + improvement;
                    newScore = (if newScore > MAX_SCORE then MAX_SCORE else newScore)
                in Inr (r\<lparr>creditProfiles := (creditProfiles r)(user :=
                     p1\<lparr>score := newScore, lastUpdated := now\<rparr>)\<rparr>))
           else Inr (r\<lparr>creditProfiles := (creditProfiles r)(user := p1)\<rparr>))"

definition recordDefault :: "Registry \<Rightarrow> address \<Rightarrow> nat \<Rightarrow> address \<Rightarrow> error + Registry" where
  "recordDefault r sender now user =
     (let p = creditProfiles r user in
      if \<not> hasOracleRole r sender then Inl Unauthorized
      else if \<not> isActive p then Inl NoProfile
      else if defaultedLoans p \<ge> MAX_UINT256 then Inl Panic
      else
        let p1 = p\<lparr>defaultedLoans := defaultedLoans p + 1\<rparr>;
            currentScore = score p1;
            penalty = 15
        in if currentScore > MIN_SCORE then
             (let newScore = (if currentScore > penalty then currentScore - penalty
                              else MIN_SCORE)
              in Inr (r\<lparr>creditProfiles := (creditProfiles r)(user :=
                   p1\<lparr>score := newScore, lastUpdated := now\<rparr>)\<rparr>))
           else Inr (r\<lparr>creditProfiles := (creditProfiles r)(user := p1)\<rparr>))"

definition getScore :: "Registry \<Rightarrow> address \<Rightarrow> nat" where
  "getScore r user =
     (if \<not> isActive (creditProfiles r user) then DEFAULT_SCORE
      else score (creditProfiles r user))"

definition getProfile :: "Registry \<Rightarrow> address \<Rightarrow> CreditProfile" where
  "getProfile r user = creditProfiles r user"


subsection \<open>The token ledger\<close>

text \<open>
  Modelled from the spec: the pool's \<^verbatim>\<open>usdcToken\<close> is an external ERC-20 contract
  (OpenZeppelin's \<^verbatim>\<open>IERC20\<close>, not part of this repository). Section 6 of the
  specification asks for \<^verbatim>\<open>transferFrom(from,to,amount)\<close>, \<^verbatim>\<open>transfer(to,amount)\<close> and
  \<^verbatim>\<open>balanceOf(holder)\<close> "with standard fail-on-insufficient-funds behavior"; the ledger
  below is that, with the allowance table that \<^verbatim>\<open>transferFrom\<close> spends and the
  repository's tests fill through \<^verbatim>\<open>approve\<close>.
\<close>

record Token =
  balances :: "address \<Rightarrow> nat"
  allowances :: "address \<Rightarrow> address \<Rightarrow> nat"

definition balanceOf :: "Token \<Rightarrow> address \<Rightarrow> nat" where
  "balanceOf t a = balances t a"

definition move :: "Token \<Rightarrow> address \<Rightarrow> address \<Rightarrow> nat \<Rightarrow> error + Token" where
  "move t from to v =
     (if from = 0 then Inl ERC20InvalidSender
      else if to = 0 then Inl ERC20InvalidReceiver
      else if balances t from < v then Inl ERC20InsufficientBalance
      else
        let b1 = (balances t)(from := balances t from - v)
        in Inr (t\<lparr>balances := b1(to := b1 to + v)\<rparr>))"

definition transfer :: "Token \<Rightarrow> address \<Rightarrow> address \<Rightarrow> nat \<Rightarrow> error + Token" where
  "transfer t sender to v = move t sender to v"

definition approve :: "Token \<Rightarrow> address \<Rightarrow> address \<Rightarrow> nat \<Rightarrow> error + Token" where
  "approve t sender spender v =
     (if sender = 0 then Inl ERC20InvalidApprover
      else if spender = 0 then Inl ERC20InvalidSpender
      else Inr (t\<lparr>allowances := (allowances t)(sender := (allowances t sender)(spender := v))\<rparr>))"

definition transferFrom ::
  "Token \<Rightarrow> address \<Rightarrow> address \<Rightarrow> address \<Rightarrow> nat \<Rightarrow> error + Token" where
  "transferFrom t sender from to v =
     (let a = allowances t from sender in
      if a < MAX_UINT256 then
        (if a < v then Inl ERC20InsufficientAllowance
         else
           (case approve t from sender (a - v) of
              Inl e \<Rightarrow> Inl e
            | Inr t1 \<Rightarrow> move t1 from to v))
      else move t from to v)"


subsection \<open>SenteBadge\<close>

record BadgeData =
  creditScore :: nat
  repaymentsCount :: nat
  mintedAt :: nat
  tier :: string

text \<open>
  \<open>nftOwners\<close> and \<open>nftBalances\<close> are the \<^verbatim>\<open>_owners\<close> and \<^verbatim>\<open>_balances\<close> tables of the
  inherited OpenZeppelin \<^verbatim>\<open>ERC721\<close>. The token URI that \<^verbatim>\<open>mintBadge\<close> also stores is
  display metadata that no contract reads back; it is not part of the state here.
\<close>

record Badge =
  nextTokenId :: nat
  badges :: "nat \<Rightarrow> BadgeData"
  hasBadge :: "address \<Rightarrow> bool"
  authorizedMinters :: "address \<Rightarrow> bool"
  badgeOwner :: address
  nftOwners :: "nat \<Rightarrow> address"
  nftBalances :: "address \<Rightarrow> nat"

definition setAuthorizedMinter :: "Badge \<Rightarrow> address \<Rightarrow> address \<Rightarrow> bool \<Rightarrow> error + Badge" where
  "setAuthorizedMinter b sender minter authorized =
     (if sender \<noteq> badgeOwner b then Inl Unauthorized
      else if minter = 0 then Inl InvalidMinterAddress
      else Inr (b\<lparr>authorizedMinters := (authorizedMinters b)(minter := authorized)\<rparr>))"

definition determineTier :: "nat \<Rightarrow> nat \<Rightarrow> string" where
  "determineTier cs rc =
     (if cs \<ge> 90 \<and> rc \<ge> 10 then ''Platinum''
      else if cs \<ge> 80 \<and> rc \<ge> 7 then ''Gold''
      else if cs \<ge> 70 \<and> rc \<ge> 5 then ''Silver''
      else ''Bronze'')"

text \<open>\<^verbatim>\<open>ERC721.balanceOf\<close>: the zero address is not a valid owner.\<close>

definition nftBalanceOf :: "Badge \<Rightarrow> address \<Rightarrow> error + nat" where
  "nftBalanceOf b owner =
     (if owner = 0 then Inl ERC721InvalidOwner else Inr (nftBalances b owner))"

text \<open>
  The overridden \<^verbatim>\<open>_update\<close>: the soulbound guard, then \<^verbatim>\<open>ERC721._update\<close> (called
  with \<^verbatim>\<open>auth = address(0)\<close>, so without an ownership check). It returns the previous
  owner.
\<close>

definition nftUpdate :: "Badge \<Rightarrow> address \<Rightarrow> nat \<Rightarrow> error + (Badge \<times> address)" where
  "nftUpdate b to tokenId =
     (let from = nftOwners b tokenId in
      if \<not> (from = 0 \<or> to = 0) then Inl NonTransferable
      else
        let bal1 = (if from \<noteq> 0 then (nftBalances b)(from := nftBalances b from - 1)
                    else nftBalances b);
            bal2 = (if to \<noteq> 0 then bal1(to := bal1 to + 1) else bal1)
        in Inr (b\<lparr>nftOwners := (nftOwners b)(tokenId := to), nftBalances := bal2\<rparr>, from))"

text \<open>
  \<^verbatim>\<open>ERC721._safeMint\<close>. Whether the recipient accepts the token (it is an externally
  owned account, or a contract whose \<^verbatim>\<open>onERC721Received\<close> answers correctly) is the
  environment's predicate \<open>rcv\<close>.
\<close>

definition safeMint :: "Badge \<Rightarrow> (address \<Rightarrow> bool) \<Rightarrow> address \<Rightarrow> nat \<Rightarrow> error + Badge" where
  "safeMint b rcv to tokenId =
     (if to = 0 then Inl ERC721InvalidReceiver
      else
        (case nftUpdate b to tokenId of
           Inl e \<Rightarrow> Inl e
         | Inr (b1, previousOwner) \<Rightarrow>
             if previousOwner \<noteq> 0 then Inl ERC721InvalidSender
             else if \<not> rcv to then Inl ERC721InvalidReceiver
             else Inr b1))"

definition mintBadge ::
  "Badge \<Rightarrow> (address \<Rightarrow> bool) \<Rightarrow> address \<Rightarrow> nat \<Rightarrow> address \<Rightarrow> nat \<Rightarrow> nat \<Rightarrow> error + (Badge \<times> nat)" where
  "mintBadge b rcv sender now to cs rc =
     (if \<not> (authorizedMinters b sender \<or> sender = badgeOwner b) then Inl Unauthorized
      else if to = 0 then Inl ZeroAddress
      else if hasBadge b to then Inl AlreadyHasCredential
      else if \<not> cs \<ge> 60 then Inl ScoreTooLow
      else if nextTokenId b \<ge> MAX_UINT256 then Inl Panic
      else
        let tokenId = nextTokenId b;
            b1 = b\<lparr>nextTokenId := nextTokenId b + 1\<rparr>;
            tier = determineTier cs rc;
            b2 = b1\<lparr>badges := (badges b1)(tokenId :=
                   \<lparr>creditScore = cs, repaymentsCount = rc, mintedAt = now, tier = tier\<rparr>)\<rparr>
        in (case safeMint b2 rcv to tokenId of
              Inl e \<Rightarrow> Inl e
            | Inr b3 \<Rightarrow> Inr (b3\<lparr>hasBadge := (hasBadge b3)(to := True)\<rparr>, tokenId)))"

definition hasSenteBadge :: "Badge \<Rightarrow> address \<Rightarrow> bool" where
  "hasSenteBadge b owner = hasBadge b owner"


subsection \<open>LendingPool\<close>

definition INTEREST_RATE :: nat where "INTEREST_RATE = 10"
definition MIN_CREDIT_SCORE :: nat where "MIN_CREDIT_SCORE = 60"
definition MAX_LOAN_AMOUNT :: nat where "MAX_LOAN_AMOUNT = 1000 * 10 ^ 6"
definition MIN_LOAN_AMOUNT :: nat where "MIN_LOAN_AMOUNT = 10 * 10 ^ 6"
definition LOAN_DURATION :: nat where "LOAN_DURATION = 30 * 86400"
definition REPAYMENT_GRACE_PERIOD :: nat where "REPAYMENT_GRACE_PERIOD = 7 * 86400"

record Loan =
  amount :: nat
  interestAmount :: nat
  startTime :: nat
  dueDate :: nat
  isActive :: bool
  isRepaid :: bool
  borrower :: address

record LenderInfo =
  deposited :: nat
  interestEarned :: nat
  lastDepositTime :: nat

record Pool =
  senteBadge :: address
  totalDeposits :: nat
  totalBorrowed :: nat
  totalRepaid :: nat
  lenders :: "address \<Rightarrow> LenderInfo"
  borrowerLoans :: "address \<Rightarrow> Loan list"
  activeLoanCount :: "address \<Rightarrow> nat"
  poolOwner :: address

text \<open>
  The pool calls the registry, the badge contract and the token, so its functions work on
  the state of all four contracts. \<open>poolAddr\<close> is \<^verbatim>\<open>address(this)\<close> of the pool: the
  \<^verbatim>\<open>msg.sender\<close> of every call the pool makes. A non-zero \<open>senteBadge\<close> stands for the
  deployed \<^verbatim>\<open>SenteBadge\<close> contract, as the field's type says.
\<close>

record World =
  pool :: Pool
  registry :: Registry
  badge :: Badge
  token :: Token
  poolAddr :: address
  erc721Receiver :: "address \<Rightarrow> bool"

definition setSenteBadge :: "World \<Rightarrow> address \<Rightarrow> address \<Rightarrow> error + World" where
  "setSenteBadge w sender a =
     (if sender \<noteq> poolOwner (pool w) then Inl Unauthorized
      else if a = 0 then Inl InvalidBadgeAddress
      else Inr (w\<lparr>pool := (pool w)\<lparr>senteBadge := a\<rparr>\<rparr>))"

definition getAvailableLiquidity :: "World \<Rightarrow> nat" where
  "getAvailableLiquidity w = balanceOf (token w) (poolAddr w)"

definition deposit :: "World \<Rightarrow> address \<Rightarrow> nat \<Rightarrow> nat \<Rightarrow> error + World" where
  "deposit w sender now amt =
     (if \<not> amt > 0 then Inl InvalidAmount
      else
        (case transferFrom (token w) (poolAddr w) sender (poolAddr w) amt of
           Inl e \<Rightarrow> Inl e
         | Inr t1 \<Rightarrow>
             let p = pool w; l = lenders p sender in
             if deposited l + amt > MAX_UINT256 then Inl Panic
             else if totalDeposits p + amt > MAX_UINT256 then Inl Panic
             else Inr (w\<lparr>token := t1,
                         pool := p\<lparr>lenders := (lenders p)(sender :=
                                      l\<lparr>deposited := deposited l + amt, lastDepositTime := now\<rparr>),
                                    totalDeposits := totalDeposits p + amt\<rparr>\<rparr>)))"

definition withdraw :: "World \<Rightarrow> address \<Rightarrow> nat \<Rightarrow> nat \<Rightarrow> error + World" where
  "withdraw w sender now amt =
     (let p = pool w; l = lenders p sender in
      if \<not> amt > 0 then Inl InvalidAmount
      else if \<not> deposited l \<ge> amt then Inl InsufficientBalance
      else if \<not> getAvailableLiquidity w \<ge> amt then Inl InsufficientLiquidity
      else if totalDeposits p < amt then Inl Panic
      else
        (case transfer (token w) (poolAddr w) sender amt of
           Inl e \<Rightarrow> Inl e
         | Inr t1 \<Rightarrow>
             Inr (w\<lparr>token := t1,
                    pool := p\<lparr>lenders := (lenders p)(sender := l\<lparr>deposited := deposited l - amt\<rparr>),
                               totalDeposits := totalDeposits p - amt\<rparr>\<rparr>)))"

definition calculateInterest :: "nat \<Rightarrow> nat \<Rightarrow> error + nat" where
  "calculateInterest amt cs =
     (let rate = (if cs \<ge> 91 then 5
                  else if cs \<ge> 81 then 6
                  else if cs \<ge> 71 then 8
                  else 10 :: nat)
      in if amt * rate > MAX_UINT256 then Inl Panic
         else Inr ((amt * rate) div 100))"

definition requestLoan :: "World \<Rightarrow> address \<Rightarrow> nat \<Rightarrow> nat \<Rightarrow> error + World" where
  "requestLoan w sender now amt =
     (let p = pool w in
      if \<not> amt \<ge> MIN_LOAN_AMOUNT then Inl AmountTooLow
      else if \<not> amt \<le> MAX_LOAN_AMOUNT then Inl AmountTooHigh
      else if \<not> activeLoanCount p sender = 0 then Inl ActiveLoanExists
      else
        let cs = getScore (registry w) sender in
        if \<not> cs \<ge> MIN_CREDIT_SCORE then Inl CreditScoreTooLow
        else if \<not> getAvailableLiquidity w \<ge> amt then Inl InsufficientLiquidity
        else
          (case calculateInterest amt cs of
             Inl e \<Rightarrow> Inl e
           | Inr interest \<Rightarrow>
               if now + LOAN_DURATION > MAX_UINT256 then Inl Panic
               else
                 let newLoan = \<lparr>amount = amt, interestAmount = interest, startTime = now,
                                dueDate = now + LOAN_DURATION, isActive = True,
                                isRepaid = False, borrower = sender\<rparr>
                 in if activeLoanCount p sender \<ge> MAX_UINT256 then Inl Panic
                    else if totalBorrowed p + amt > MAX_UINT256 then Inl Panic
                    else
                      let p1 = p\<lparr>borrowerLoans := (borrowerLoans p)(sender :=
                                      borrowerLoans p sender @ [newLoan]),
                                  activeLoanCount := (activeLoanCount p)(sender :=
                                      activeLoanCount p sender + 1),
                                  totalBorrowed := totalBorrowed p + amt\<rparr>
                      in (case recordLoan (registry w) (poolAddr w) now sender of
                            Inl e \<Rightarrow> Inl e
                          | Inr r1 \<Rightarrow>
                              (case transfer (token w) (poolAddr w) sender amt of
                                 Inl e \<Rightarrow> Inl e
                               | Inr t1 \<Rightarrow>
                                   Inr (w\<lparr>pool := p1, registry := r1, token := t1\<rparr>)))))"

text \<open>
  \<^verbatim>\<open>_checkAndMintBadge\<close>. It has no \<^verbatim>\<open>try\<close>/\<^verbatim>\<open>catch\<close>: a revert of \<^verbatim>\<open>balanceOf\<close> or
  \<^verbatim>\<open>mintBadge\<close> is a revert of the caller.
\<close>

definition checkAndMintBadge :: "World \<Rightarrow> nat \<Rightarrow> address \<Rightarrow> error + World" where
  "checkAndMintBadge w now b =
     (if senteBadge (pool w) = 0 then Inr w
      else
        (case nftBalanceOf (badge w) b of
           Inl e \<Rightarrow> Inl e
         | Inr n \<Rightarrow>
             if n > 0 then Inr w
             else
               let profile = getProfile (registry w) b in
               if successfulRepayments profile \<ge> 3 \<and> defaultedLoans profile = 0 then
                 (case mintBadge (badge w) (erc721Receiver w) (poolAddr w) now b
                         (score profile) (successfulRepayments profile) of
                    Inl e \<Rightarrow> Inl e
                  | Inr (b1, tokenId) \<Rightarrow> Inr (w\<lparr>badge := b1\<rparr>))
               else Inr w))"

text \<open>
  The branch of \<^verbatim>\<open>repayLoan\<close> taken past the grace period, up to and without its last
  statement: the storage writes that mark the loan as defaulted (lines 203 to 205).
\<close>

definition markDefaulted :: "World \<Rightarrow> address \<Rightarrow> nat \<Rightarrow> nat \<Rightarrow> error + World" where
  "markDefaulted w sender now loanId =
     (let p = pool w;
          loan = borrowerLoans p sender ! loanId;
          p1 = p\<lparr>borrowerLoans := (borrowerLoans p)(sender :=
                  (borrowerLoans p sender)[loanId := loan\<lparr>isActive := False\<rparr>])\<rparr>
      in if activeLoanCount p1 sender = 0 then Inl Panic
         else
           let p2 = p1\<lparr>activeLoanCount := (activeLoanCount p1)(sender :=
                          activeLoanCount p1 sender - 1)\<rparr>
           in (case recordDefault (registry w) (poolAddr w) now sender of
                 Inl e \<Rightarrow> Inl e
               | Inr r1 \<Rightarrow> Inr (w\<lparr>pool := p2, registry := r1\<rparr>)))"

definition repayLoan :: "World \<Rightarrow> address \<Rightarrow> nat \<Rightarrow> nat \<Rightarrow> error + World" where
  "repayLoan w sender now loanId =
     (let p = pool w in
      if \<not> loanId < length (borrowerLoans p sender) then Inl InvalidLoanId
      else
        let loan = borrowerLoans p sender ! loanId in
        if \<not> isActive loan then Inl LoanNotActive
        else if isRepaid loan then Inl LoanAlreadyRepaid
        else if \<not> borrower loan = sender then Inl NotLoanOwner
        else if amount loan + interestAmount loan > MAX_UINT256 then Inl Panic
        else
          let totalRepayment = amount loan + interestAmount loan in
          if dueDate loan + REPAYMENT_GRACE_PERIOD > MAX_UINT256 then Inl Panic
          else
            let isPastGracePeriod = now > dueDate loan + REPAYMENT_GRACE_PERIOD in
            if isPastGracePeriod then
              (case markDefaulted w sender now loanId of
                 Inl e \<Rightarrow> Inl e
               | Inr w1 \<Rightarrow> Inl Defaulted)
            else
              (case transferFrom (token w) (poolAddr w) sender (poolAddr w) totalRepayment of
                 Inl e \<Rightarrow> Inl e
               | Inr t1 \<Rightarrow>
                   if activeLoanCount p sender = 0 then Inl Panic
                   else if totalRepaid p + totalRepayment > MAX_UINT256 then Inl Panic
                   else
                     let p1 = p\<lparr>borrowerLoans := (borrowerLoans p)(sender :=
                                    (borrowerLoans p sender)[loanId :=
                                       loan\<lparr>isActive := False, isRepaid := True\<rparr>]),
                                 activeLoanCount := (activeLoanCount p)(sender :=
                                    activeLoanCount p sender - 1),
                                 totalRepaid := totalRepaid p + totalRepayment\<rparr>
                     in (case recordRepayment (registry w) (poolAddr w) now sender of
                           Inl e \<Rightarrow> Inl e
                         | Inr r1 \<Rightarrow>
                             checkAndMintBadge (w\<lparr>token := t1, pool := p1, registry := r1\<rparr>)
                               now sender)))"

definition getUtilizationRate :: "World \<Rightarrow> error + nat" where
  "getUtilizationRate w =
     (let p = pool w in
      if totalDeposits p = 0 then Inr 0
      else if totalBorrowed p < totalRepaid p then Inl Panic
      else
        let currentBorrowed = totalBorrowed p - totalRepaid p in
        if currentBorrowed * 100 > MAX_UINT256 then Inl Panic
        else Inr ((currentBorrowed * 100) div totalDeposits p))"

definition emergencyWithdraw :: "World \<Rightarrow> address \<Rightarrow> nat \<Rightarrow> error + World" where
  "emergencyWithdraw w sender amt =
     (if sender \<noteq> poolOwner (pool w) then Inl Unauthorized
      else if \<not> amt \<le> getAvailableLiquidity w then Inl InsufficientBalance
      else
        (case transfer (token w) (poolAddr w) (poolOwner (pool w)) amt of
           Inl e \<Rightarrow> Inl e
         | Inr t1 \<Rightarrow> Inr (w\<lparr>token := t1\<rparr>)))"


subsection \<open>Deployment and executions\<close>

text \<open>
  The state after the three constructors, run by one deployer as in the repository's
  deployment script. The token contract exists beforehand; its ledger \<open>tok\<close> is arbitrary.
\<close>

definition deploy :: "address \<Rightarrow> address \<Rightarrow> Token \<Rightarrow> (address \<Rightarrow> bool) \<Rightarrow> World" where
  "deploy deployer pa tok rcv =
     \<lparr>pool = \<lparr>senteBadge = 0, totalDeposits = 0, totalBorrowed = 0, totalRepaid = 0,
              lenders = (\<lambda>_. \<lparr>deposited = 0, interestEarned = 0, lastDepositTime = 0\<rparr>),
              borrowerLoans = (\<lambda>_. []),
              activeLoanCount = (\<lambda>_. 0),
              poolOwner = deployer\<rparr>,
      registry = \<lparr>creditProfiles = (\<lambda>_. noProfile),
                  hasOracleRole = (\<lambda>a. a = deployer),
                  hasAdminRole = (\<lambda>a. a = deployer)\<rparr>,
      badge = \<lparr>nextTokenId = 1,
               badges = (\<lambda>_. \<lparr>creditScore = 0, repaymentsCount = 0, mintedAt = 0, tier = []\<rparr>),
               hasBadge = (\<lambda>_. False),
               authorizedMinters = (\<lambda>_. False),
               badgeOwner = deployer,
               nftOwners = (\<lambda>_. 0),
               nftBalances = (\<lambda>_. 0)\<rparr>,
      token = tok,
      poolAddr = pa,
      erc721Receiver = rcv\<rparr>"

text \<open>
  The externally callable, state-changing functions of the four contracts. Of the entry
  points inherited from OpenZeppelin, granting the oracle role and the token's
  \<^verbatim>\<open>transfer\<close> and \<^verbatim>\<open>approve\<close> are included. Left out are those that only hand over an
  ownership or take a role away, the token's own supply functions, and the badge's
  transfer and approval functions, which always revert for a minted badge.
\<close>

datatype op =
    Deposit nat
  | Withdraw nat
  | RequestLoan nat
  | RepayLoan nat
  | SetSenteBadge address
  | EmergencyWithdraw nat
  | GrantOracleRole address
  | CreateProfile address nat
  | UpdateScore address nat
  | RecordLoan address
  | RecordRepayment address
  | RecordDefault address
  | SetAuthorizedMinter address bool
  | MintBadge address nat nat
  | TokenTransfer address nat
  | TokenApprove address nat

definition inRegistry :: "World \<Rightarrow> error + Registry \<Rightarrow> error + World" where
  "inRegistry w r = (case r of Inl e \<Rightarrow> Inl e | Inr r1 \<Rightarrow> Inr (w\<lparr>registry := r1\<rparr>))"

definition inBadge :: "World \<Rightarrow> error + Badge \<Rightarrow> error + World" where
  "inBadge w r = (case r of Inl e \<Rightarrow> Inl e | Inr b1 \<Rightarrow> Inr (w\<lparr>badge := b1\<rparr>))"

definition inToken :: "World \<Rightarrow> error + Token \<Rightarrow> error + World" where
  "inToken w r = (case r of Inl e \<Rightarrow> Inl e | Inr t1 \<Rightarrow> Inr (w\<lparr>token := t1\<rparr>))"

text \<open>A call is a sender, a block timestamp and the function invoked with its arguments.\<close>

fun exec :: "World \<Rightarrow> address \<times> nat \<times> op \<Rightarrow> error + World" where
  "exec w (sender, now, Deposit a) = deposit w sender now a"
| "exec w (sender, now, Withdraw a) = withdraw w sender now a"
| "exec w (sender, now, RequestLoan a) = requestLoan w sender now a"
| "exec w (sender, now, RepayLoan i) = repayLoan w sender now i"
| "exec w (sender, now, SetSenteBadge a) = setSenteBadge w sender a"
| "exec w (sender, now, EmergencyWithdraw a) = emergencyWithdraw w sender a"
| "exec w (sender, now, GrantOracleRole a) = inRegistry w (grantOracleRole (registry w) sender a)"
| "exec w (sender, now, CreateProfile u s) = inRegistry w (createProfile (registry w) sender now u s)"
| "exec w (sender, now, UpdateScore u s) = inRegistry w (updateScore (registry w) sender now u s)"
| "exec w (sender, now, RecordLoan u) = inRegistry w (recordLoan (registry w) sender now u)"
| "exec w (sender, now, RecordRepayment u) = inRegistry w (recordRepayment (registry w) sender now u)"
| "exec w (sender, now, RecordDefault u) = inRegistry w (recordDefault (registry w) sender now u)"
| "exec w (sender, now, SetAuthorizedMinter m a) = inBadge w (setAuthorizedMinter (badge w) sender m a)"
| "exec w (sender, now, MintBadge to cs rc) =
     inBadge w (map_sum id fst (mintBadge (badge w) (erc721Receiver w) sender now to cs rc))"
| "exec w (sender, now, TokenTransfer to v) = inToken w (transfer (token w) sender to v)"
| "exec w (sender, now, TokenApprove sp v) = inToken w (approve (token w) sender sp v)"

text \<open>One transaction: the state it leaves behind, reverted or not.\<close>

definition step :: "World \<Rightarrow> address \<times> nat \<times> op \<Rightarrow> World" where
  "step w c = commit w (exec w c)"

definition run :: "World \<Rightarrow> (address \<times> nat \<times> op) list \<Rightarrow> World" where
  "run w cs = foldl step w cs"


subsection \<open>The interest schedule as the specification words it\<close>

text \<open>
  The rate table of the specification: 5 from score 91, 6 for 81 to 90, 8 for 71 to 80,
  and 10 otherwise. It is compared with \<open>calculateInterest\<close> below.
\<close>

definition scheduleRate :: "nat \<Rightarrow> nat" where
  "scheduleRate cs =
     (if cs \<ge> 91 then 5
      else if 81 \<le> cs \<and> cs \<le> 90 then 6
      else if 71 \<le> cs \<and> cs \<le> 80 then 8
      else 10)"


subsection \<open>A concrete deployment\<close>

text \<open>
  The scenario of the repository's test suite, in the token's smallest unit (six
  decimals): the deployer is address 1, the pool address 10, the badge contract address
  11, the borrower address 2 and the lender address 3. The lender owns 10000 USDC and the
  borrower 1000 USDC when the contracts are deployed.
\<close>

definition exToken :: Token where
  "exToken = \<lparr>balances = (\<lambda>a. if a = 3 then 10000000000 else if a = 2 then 1000000000 else 0),
              allowances = (\<lambda>_ _. 0)\<rparr>"

definition exDeployed :: World where
  "exDeployed = deploy 1 10 exToken (\<lambda>_. True)"

text \<open>
  Configuration as in the deployment script, a profile with score 75 for the borrower,
  and a deposit of 5000 USDC by the lender.
\<close>

definition exSetup :: "(address \<times> nat \<times> op) list" where
  "exSetup = [(1, 100, GrantOracleRole 10), (1, 100, SetSenteBadge 11),
              (1, 100, SetAuthorizedMinter 10 True), (1, 100, CreateProfile 2 75),
              (3, 100, TokenApprove 10 5000000000), (3, 100, Deposit 5000000000)]"

text \<open>The borrower takes a loan of 100 USDC and approves the pool for the repayment.\<close>

definition exBorrow :: "(address \<times> nat \<times> op) list" where
  "exBorrow = [(2, 200, RequestLoan 100000000), (2, 200, TokenApprove 10 108000000)]"

text \<open>One full cycle: borrow, then repay loan \<open>i\<close> in time.\<close>

definition exCycle :: "nat \<Rightarrow> (address \<times> nat \<times> op) list" where
  "exCycle i = exBorrow @ [(2, 300, RepayLoan i)]"

text \<open>
  Preparation for the badge trigger: the badge contract is configured and the oracle
  (the deployer) reports three repayments for the borrower directly.
\<close>

definition exMintReady :: "(address \<times> nat \<times> op) list" where
  "exMintReady = [(1, 100, SetSenteBadge 11), (1, 100, SetAuthorizedMinter 10 True),
                  (1, 100, CreateProfile 2 75), (1, 110, RecordRepayment 2),
                  (1, 120, RecordRepayment 2), (1, 130, RecordRepayment 2)]"

text \<open>Three full cycles, as in the integration test.\<close>

definition exThreeCycles :: "(address \<times> nat \<times> op) list" where
  "exThreeCycles = exSetup @ exCycle 0 @ exCycle 1 @ exCycle 2"

text \<open>
  Two full cycles and a third loan; then the oracle lowers the borrower's score to 40
  while the third loan is open.
\<close>

definition exLowScore :: "(address \<times> nat \<times> op) list" where
  "exLowScore = exSetup @ exCycle 0 @ exCycle 1 @ exBorrow @ [(1, 250, UpdateScore 2 40)]"


subsection \<open>Invariants\<close>

text \<open>The counter relation of the specification's data model, for one principal.\<close>

definition countersCoherent :: "World \<Rightarrow> address \<Rightarrow> bool" where
  "countersCoherent w u =
     (successfulRepayments (creditProfiles (registry w) u)
        + defaultedLoans (creditProfiles (registry w) u)
      \<le> totalLoans (creditProfiles (registry w) u))"

text \<open>
  Calls that report a loan outcome to the registry directly, and call sequences without
  such calls: there every repayment and default the registry hears of comes from the pool.
\<close>

fun reportsOutcome :: "op \<Rightarrow> bool" where
  "reportsOutcome (RecordRepayment u) = True"
| "reportsOutcome (RecordDefault u) = True"
| "reportsOutcome _ = False"

definition poolReported :: "(address \<times> nat \<times> op) list \<Rightarrow> bool" where
  "poolReported cs = list_all (\<lambda>c. \<not> reportsOutcome (snd (snd c))) cs"

text \<open>
  The relation that the pool and the registry keep together: every loan the pool counts
  as active has been recorded and is not settled yet, and only principals with a profile
  have one.
\<close>

definition countersInv :: "World \<Rightarrow> address \<Rightarrow> bool" where
  "countersInv w u =
     (successfulRepayments (creditProfiles (registry w) u)
        + defaultedLoans (creditProfiles (registry w) u)
        + activeLoanCount (pool w) u
      \<le> totalLoans (creditProfiles (registry w) u)
      \<and> (CreditProfile.isActive (creditProfiles (registry w) u) \<or> activeLoanCount (pool w) u = 0))"

definition scoreInv :: "World \<Rightarrow> address \<Rightarrow> bool" where
  "scoreInv w u = (score (creditProfiles (registry w) u) \<le> MAX_SCORE)"

text \<open>The pool's counter of active loans is the number of active loan records, at most one.\<close>

definition loansInv :: "World \<Rightarrow> address \<Rightarrow> bool" where
  "loansInv w b =
     (activeLoanCount (pool w) b = length (filter isActive (borrowerLoans (pool w) b))
      \<and> activeLoanCount (pool w) b \<le> 1)"

text \<open>A holder of the badge flag is a non-zero address with a positive token balance.\<close>

definition badgeInv :: "Badge \<Rightarrow> bool" where
  "badgeInv b = (\<forall>a. hasBadge b a \<longrightarrow> a \<noteq> 0 \<and> 0 < nftBalances b a)"

text \<open>
  The badge flag and the owner table agree: a flagged address is non-zero and owns a
  token, every owned token belongs to a flagged address, and no address owns two tokens.
\<close>

definition ownersInv :: "Badge \<Rightarrow> bool" where
  "ownersInv b =
     ((\<forall>a. hasBadge b a \<longrightarrow> a \<noteq> 0 \<and> (\<exists>t. nftOwners b t = a))
      \<and> (\<forall>t. nftOwners b t \<noteq> 0 \<longrightarrow> hasBadge b (nftOwners b t))
      \<and> (\<forall>t t'. nftOwners b t = nftOwners b t' \<and> nftOwners b t \<noteq> 0 \<longrightarrow> t = t'))"


section \<open>Properties\<close>

lemmas eval_defs =
  run_def step_def commit_def exDeployed_def deploy_def exToken_def exSetup_def exBorrow_def
  exCycle_def deposit_def withdraw_def requestLoan_def repayLoan_def setSenteBadge_def
  emergencyWithdraw_def inRegistry_def inBadge_def inToken_def grantOracleRole_def
  createProfile_def updateScore_def recordLoan_def recordRepayment_def recordDefault_def
  setAuthorizedMinter_def mintBadge_def transfer_def approve_def transferFrom_def move_def
  balanceOf_def getAvailableLiquidity_def getScore_def getProfile_def calculateInterest_def
  checkAndMintBadge_def markDefaulted_def nftBalanceOf_def safeMint_def nftUpdate_def
  determineTier_def getUtilizationRate_def noProfile_def Let_def
  MAX_UINT256_def MAX_UINT8_def MIN_SCORE_def MAX_SCORE_def DEFAULT_SCORE_def
  MIN_CREDIT_SCORE_def MAX_LOAN_AMOUNT_def MIN_LOAN_AMOUNT_def LOAN_DURATION_def
  REPAYMENT_GRACE_PERIOD_def


subsection \<open>The token ledger\<close>

lemma move_ok:
  "move t from to v = Inr t1 \<Longrightarrow>
     from \<noteq> 0 \<and> to \<noteq> 0 \<and> v \<le> balances t from \<and> v \<le> balances t1 to
     \<and> allowances t1 = allowances t"
  by (auto simp: move_def Let_def split: if_splits)

lemma move_succeeds:
  "from \<noteq> 0 \<Longrightarrow> to \<noteq> 0 \<Longrightarrow> v \<le> balances t from \<Longrightarrow>
     move t from to v =
       Inr (t\<lparr>balances := ((balances t)(from := balances t from - v))
                 (to := ((balances t)(from := balances t from - v)) to + v)\<rparr>)"
  by (simp add: move_def Let_def)

lemma transferFrom_ok:
  "transferFrom t sender from to v = Inr t1 \<Longrightarrow>
     from \<noteq> 0 \<and> to \<noteq> 0 \<and> v \<le> balances t1 to"
  by (auto simp: transferFrom_def approve_def Let_def split: if_splits sum.splits dest!: move_ok)


subsection \<open>Interest\<close>

lemma scheduleRate_le: "scheduleRate cs \<le> 10"
  by (simp add: scheduleRate_def)

lemma scheduleRate_antimono: "cs \<le> cs' \<Longrightarrow> scheduleRate cs' \<le> scheduleRate cs"
  by (simp add: scheduleRate_def)

lemma calculateInterest_rate:
  "calculateInterest amt cs =
     (if amt * scheduleRate cs \<le> MAX_UINT256 then Inr (amt * scheduleRate cs div 100)
      else Inl Panic)"
  by (simp add: calculateInterest_def scheduleRate_def Let_def)

text \<open>
  C6, as stated, fails: \<open>calculateInterest\<close> is a public function on all of \<^verbatim>\<open>uint256\<close>,
  and for the amount \<open>2 ^ 255\<close> and score 50 the checked product \<open>amount * 10\<close> leaves
  the range, so the call panics instead of returning \<open>amount * 10 div 100\<close>.
\<close>

theorem calculateInterest_counterexample:
  "2 ^ 255 \<le> MAX_UINT256 \<and> calculateInterest (2 ^ 255) 50 = Inl Panic
   \<and> calculateInterest (2 ^ 255) 50 \<noteq> Inr (2 ^ 255 * 10 div 100)"
  by (simp add: calculateInterest_def MAX_UINT256_def)

text \<open>
  C6, amended: \<open>calculateInterest amt cs\<close> depends on its two arguments only; it equals
  \<open>amt * rate div 100\<close> for the rate of the specification's table whenever \<open>amt * rate\<close>
  fits into 256 bits, and panics otherwise. For every amount with \<open>amt * 10\<close> in range
  (every amount \<open>requestLoan\<close> accepts is) it returns a value for every score, and the
  value does not increase when the score increases.
\<close>

theorem calculateInterest_schedule:
  "calculateInterest amt cs =
     (if amt * scheduleRate cs \<le> MAX_UINT256 then Inr (amt * scheduleRate cs div 100)
      else Inl Panic)
   \<and> (amt * 10 \<le> MAX_UINT256 \<and> cs \<le> cs' \<longrightarrow>
        (\<exists>i i'. calculateInterest amt cs = Inr i \<and> calculateInterest amt cs' = Inr i' \<and> i' \<le> i))"
proof (intro conjI impI)
  show "calculateInterest amt cs =
     (if amt * scheduleRate cs \<le> MAX_UINT256 then Inr (amt * scheduleRate cs div 100)
      else Inl Panic)"
    by (rule calculateInterest_rate)
next
  assume h: "amt * 10 \<le> MAX_UINT256 \<and> cs \<le> cs'"
  have b: "amt * scheduleRate cs \<le> MAX_UINT256" "amt * scheduleRate cs' \<le> MAX_UINT256"
    using h scheduleRate_le [of cs] scheduleRate_le [of cs']
    by (meson le_trans mult_le_mono2)+
  have m: "amt * scheduleRate cs' div 100 \<le> amt * scheduleRate cs div 100"
    using h scheduleRate_antimono [of cs cs'] by (simp add: div_le_mono)
  show "\<exists>i i'. calculateInterest amt cs = Inr i \<and> calculateInterest amt cs' = Inr i' \<and> i' \<le> i"
    using b m by (simp add: calculateInterest_rate)
qed

theorem calculateInterest_schedule_witness:
  "(100000000::nat) * 10 \<le> MAX_UINT256 \<and> (75::nat) \<le> 95
   \<and> calculateInterest 100000000 75 = Inr 8000000
   \<and> (\<exists>i i'. calculateInterest 100000000 75 = Inr i \<and> calculateInterest 100000000 95 = Inr i'
        \<and> i' \<le> i)"
  using calculateInterest_schedule [of 100000000 75 95]
  by (auto simp: MAX_UINT256_def scheduleRate_def)


subsection \<open>Deposits and withdrawals\<close>

lemma deposit_ok:
  assumes "deposit w sender now X = Inr w1"
  shows "0 < X \<and> sender \<noteq> 0 \<and> poolAddr w \<noteq> 0 \<and> poolAddr w1 = poolAddr w
         \<and> X \<le> balances (token w1) (poolAddr w)
         \<and> deposited (lenders (pool w1) sender) = deposited (lenders (pool w) sender) + X
         \<and> totalDeposits (pool w1) = totalDeposits (pool w) + X"
  using assms
  by (auto simp: deposit_def Let_def split: if_splits sum.splits dest!: transferFrom_ok)

text \<open>
  C8: whenever \<open>deposit(X)\<close> is accepted, a \<open>withdraw(X)\<close> by the same lender in the state
  it leaves succeeds (at any later timestamp), and afterwards the lender's \<open>deposited\<close>
  field and \<open>totalDeposits\<close> have the values they had before the deposit.
\<close>

theorem deposit_withdraw_roundtrip:
  assumes "deposit w sender now X = Inr w1"
  shows "\<exists>w2. withdraw w1 sender now' X = Inr w2
           \<and> deposited (lenders (pool w2) sender) = deposited (lenders (pool w) sender)
           \<and> totalDeposits (pool w2) = totalDeposits (pool w)"
proof -
  from deposit_ok [OF assms]
  have d: "0 < X" "sender \<noteq> 0" "poolAddr w1 \<noteq> 0"
    "X \<le> balances (token w1) (poolAddr w1)"
    "deposited (lenders (pool w1) sender) = deposited (lenders (pool w) sender) + X"
    "totalDeposits (pool w1) = totalDeposits (pool w) + X"
    by simp_all
  show ?thesis
    using d
    by (simp add: withdraw_def Let_def getAvailableLiquidity_def balanceOf_def transfer_def
        move_succeeds)
qed

theorem deposit_withdraw_roundtrip_witness:
  "\<exists>w1 w2. deposit (run exDeployed (take 5 exSetup)) 3 100 5000000000 = Inr w1
     \<and> withdraw w1 3 200 5000000000 = Inr w2
     \<and> deposited (lenders (pool w2) 3) = deposited (lenders (pool (run exDeployed (take 5 exSetup))) 3)
     \<and> totalDeposits (pool w2) = totalDeposits (pool (run exDeployed (take 5 exSetup)))"
proof -
  have "\<exists>w1. deposit (run exDeployed (take 5 exSetup)) 3 100 5000000000 = Inr w1"
    by (simp add: eval_defs)
  then obtain w1 where d: "deposit (run exDeployed (take 5 exSetup)) 3 100 5000000000 = Inr w1"
    by blast
  from deposit_withdraw_roundtrip [OF d, of 200] show ?thesis
    using d by blast
qed


subsection \<open>What each call changes\<close>

lemma inRegistry_Inr:
  "inRegistry w r = Inr w' \<Longrightarrow> \<exists>r1. r = Inr r1 \<and> w' = w\<lparr>registry := r1\<rparr>"
  by (auto simp: inRegistry_def split: sum.splits)

lemma inBadge_Inr:
  "inBadge w r = Inr w' \<Longrightarrow> \<exists>b1. r = Inr b1 \<and> w' = w\<lparr>badge := b1\<rparr>"
  by (auto simp: inBadge_def split: sum.splits)

lemma inToken_Inr:
  "inToken w r = Inr w' \<Longrightarrow> \<exists>t1. r = Inr t1 \<and> w' = w\<lparr>token := t1\<rparr>"
  by (auto simp: inToken_def split: sum.splits)

lemma deposit_frame:
  "deposit w s n a = Inr w' \<Longrightarrow>
     registry w' = registry w \<and> badge w' = badge w \<and> poolAddr w' = poolAddr w
     \<and> erc721Receiver w' = erc721Receiver w
     \<and> borrowerLoans (pool w') = borrowerLoans (pool w)
     \<and> activeLoanCount (pool w') = activeLoanCount (pool w)"
  by (auto simp: deposit_def Let_def split: if_splits sum.splits)

lemma withdraw_frame:
  "withdraw w s n a = Inr w' \<Longrightarrow>
     registry w' = registry w \<and> badge w' = badge w \<and> poolAddr w' = poolAddr w
     \<and> erc721Receiver w' = erc721Receiver w
     \<and> borrowerLoans (pool w') = borrowerLoans (pool w)
     \<and> activeLoanCount (pool w') = activeLoanCount (pool w)"
  by (auto simp: withdraw_def Let_def split: if_splits sum.splits)

lemma setSenteBadge_frame:
  "setSenteBadge w s a = Inr w' \<Longrightarrow>
     registry w' = registry w \<and> badge w' = badge w \<and> poolAddr w' = poolAddr w
     \<and> erc721Receiver w' = erc721Receiver w
     \<and> borrowerLoans (pool w') = borrowerLoans (pool w)
     \<and> activeLoanCount (pool w') = activeLoanCount (pool w)"
  by (auto simp: setSenteBadge_def split: if_splits)

lemma emergencyWithdraw_frame:
  "emergencyWithdraw w s a = Inr w' \<Longrightarrow>
     registry w' = registry w \<and> badge w' = badge w \<and> poolAddr w' = poolAddr w
     \<and> erc721Receiver w' = erc721Receiver w \<and> pool w' = pool w"
  by (auto simp: emergencyWithdraw_def split: if_splits sum.splits)

lemma requestLoan_effect:
  "requestLoan w s n a = Inr w' \<Longrightarrow>
     badge w' = badge w \<and> poolAddr w' = poolAddr w \<and> erc721Receiver w' = erc721Receiver w
     \<and> MIN_LOAN_AMOUNT \<le> a \<and> a \<le> MAX_LOAN_AMOUNT
     \<and> activeLoanCount (pool w) s = 0
     \<and> recordLoan (registry w) (poolAddr w) n s = Inr (registry w')
     \<and> activeLoanCount (pool w') = (activeLoanCount (pool w))(s := 1)
     \<and> (\<exists>l. isActive l \<and> borrower l = s \<and> borrowerLoans (pool w') =
            (borrowerLoans (pool w))(s := borrowerLoans (pool w) s @ [l]))"
  apply (auto simp: requestLoan_def Let_def split: if_splits sum.splits)
  subgoal for x2 x2a x2b
    by (rule exI [of _ "\<lparr>amount = a, interestAmount = x2, startTime = n,
          dueDate = n + LOAN_DURATION, isActive = True, isRepaid = False, borrower = s\<rparr>"]) simp
  done

lemma checkAndMintBadge_effect:
  "checkAndMintBadge w n b = Inr w' \<Longrightarrow>
     pool w' = pool w \<and> registry w' = registry w \<and> token w' = token w
     \<and> poolAddr w' = poolAddr w \<and> erc721Receiver w' = erc721Receiver w
     \<and> (badge w' = badge w
        \<or> (\<exists>t. mintBadge (badge w) (erc721Receiver w) (poolAddr w) n b
                 (score (creditProfiles (registry w) b))
                 (successfulRepayments (creditProfiles (registry w) b)) = Inr (badge w', t)))"
  by (auto simp: checkAndMintBadge_def Let_def getProfile_def split: if_splits sum.splits)

lemma repayLoan_effect:
  "repayLoan w s n i = Inr w' \<Longrightarrow>
     poolAddr w' = poolAddr w \<and> erc721Receiver w' = erc721Receiver w
     \<and> i < length (borrowerLoans (pool w) s)
     \<and> isActive (borrowerLoans (pool w) s ! i)
     \<and> 0 < activeLoanCount (pool w) s
     \<and> recordRepayment (registry w) (poolAddr w) n s = Inr (registry w')
     \<and> activeLoanCount (pool w') =
         (activeLoanCount (pool w))(s := activeLoanCount (pool w) s - 1)
     \<and> borrowerLoans (pool w') =
         (borrowerLoans (pool w))(s := (borrowerLoans (pool w) s)[i :=
            (borrowerLoans (pool w) s ! i)\<lparr>isActive := False, isRepaid := True\<rparr>])
     \<and> (badge w' = badge w
        \<or> (\<exists>t. mintBadge (badge w) (erc721Receiver w) (poolAddr w) n s
                 (score (creditProfiles (registry w') s))
                 (successfulRepayments (creditProfiles (registry w') s)) = Inr (badge w', t)))"
  by (auto simp: repayLoan_def Let_def split: if_splits sum.splits
      dest!: checkAndMintBadge_effect)

lemma grantOracleRole_profiles:
  "grantOracleRole r s a = Inr r' \<Longrightarrow> creditProfiles r' = creditProfiles r"
  by (auto simp: grantOracleRole_def split: if_splits)

lemma createProfile_effect:
  "createProfile r s n x v = Inr r' \<Longrightarrow>
     v \<le> MAX_SCORE \<and> \<not> CreditProfile.isActive (creditProfiles r x)
     \<and> creditProfiles r' = (creditProfiles r)(x :=
          \<lparr>score = v, lastUpdated = n, totalLoans = 0, successfulRepayments = 0,
           defaultedLoans = 0, isActive = True\<rparr>)"
  by (auto simp: createProfile_def split: if_splits)

lemma updateScore_effect:
  "updateScore r s n x v = Inr r' \<Longrightarrow>
     v \<le> MAX_SCORE
     \<and> (createProfile r s n x v = Inr r'
        \<or> (CreditProfile.isActive (creditProfiles r x)
            \<and> creditProfiles r' = (creditProfiles r)(x :=
                 (creditProfiles r x)\<lparr>score := v, lastUpdated := n\<rparr>)))"
  by (auto simp: updateScore_def split: if_splits)

lemma recordLoan_effect:
  "recordLoan r s n x = Inr r' \<Longrightarrow>
     CreditProfile.isActive (creditProfiles r x)
     \<and> creditProfiles r' = (creditProfiles r)(x :=
          (creditProfiles r x)\<lparr>totalLoans := totalLoans (creditProfiles r x) + 1\<rparr>)"
  by (auto simp: recordLoan_def Let_def split: if_splits)

lemma recordRepayment_effect:
  "recordRepayment r s n x = Inr r' \<Longrightarrow>
     CreditProfile.isActive (creditProfiles r x)
     \<and> (\<forall>u. u \<noteq> x \<longrightarrow> creditProfiles r' u = creditProfiles r u)
     \<and> CreditProfile.isActive (creditProfiles r' x)
     \<and> totalLoans (creditProfiles r' x) = totalLoans (creditProfiles r x)
     \<and> defaultedLoans (creditProfiles r' x) = defaultedLoans (creditProfiles r x)
     \<and> successfulRepayments (creditProfiles r' x) = successfulRepayments (creditProfiles r x) + 1
     \<and> score (creditProfiles r' x) =
         (if score (creditProfiles r x) < MAX_SCORE
          then min MAX_SCORE (score (creditProfiles r x) + 2)
          else score (creditProfiles r x))"
  by (auto simp: recordRepayment_def Let_def split: if_splits)

lemma recordDefault_effect:
  "recordDefault r s n x = Inr r' \<Longrightarrow>
     CreditProfile.isActive (creditProfiles r x)
     \<and> (\<forall>u. u \<noteq> x \<longrightarrow> creditProfiles r' u = creditProfiles r u)
     \<and> CreditProfile.isActive (creditProfiles r' x)
     \<and> totalLoans (creditProfiles r' x) = totalLoans (creditProfiles r x)
     \<and> defaultedLoans (creditProfiles r' x) = defaultedLoans (creditProfiles r x) + 1
     \<and> successfulRepayments (creditProfiles r' x) = successfulRepayments (creditProfiles r x)
     \<and> score (creditProfiles r' x) = score (creditProfiles r x) - 15"
  by (auto simp: recordDefault_def Let_def MIN_SCORE_def split: if_splits)

lemma mintBadge_effect:
  "mintBadge b rcv s n to cs rc = Inr (b', t) \<Longrightarrow>
     to \<noteq> 0 \<and> \<not> hasBadge b to \<and> 60 \<le> cs
     \<and> nextTokenId b' = nextTokenId b + 1
     \<and> hasBadge b' = (hasBadge b)(to := True)
     \<and> nftBalances b' = (nftBalances b)(to := nftBalances b to + 1)"
  by (auto simp: mintBadge_def safeMint_def nftUpdate_def Let_def split: if_splits sum.splits)

lemma setAuthorizedMinter_effect:
  "setAuthorizedMinter b s m a = Inr b' \<Longrightarrow>
     hasBadge b' = hasBadge b \<and> nftBalances b' = nftBalances b"
  by (auto simp: setAuthorizedMinter_def split: if_splits)


subsection \<open>Executions\<close>

lemma run_Nil: "run w [] = w"
  by (simp add: run_def)

lemma run_Cons: "run w (c # cs) = run (step w c) cs"
  by (simp add: run_def)

lemma run_snoc: "run w (cs @ [c]) = step (run w cs) c"
  by (simp add: run_def)

lemma step_cases: "step w c = w \<or> exec w c = Inr (step w c)"
  by (simp add: step_def commit_def split: sum.splits)


subsection \<open>Late repayment\<close>

text \<open>No call of \<open>repayLoan\<close> past the grace period returns normally, whatever the state.\<close>

lemma repayLoan_late_fails:
  assumes "loanId < length (borrowerLoans (pool w) sender)"
    and "dueDate (borrowerLoans (pool w) sender ! loanId) + REPAYMENT_GRACE_PERIOD < now"
  shows "\<exists>e. repayLoan w sender now loanId = Inl e"
  using assms by (auto simp: repayLoan_def Let_def split: sum.splits)

lemma repayLoan_late_no_change:
  assumes "loanId < length (borrowerLoans (pool w) sender)"
    and "dueDate (borrowerLoans (pool w) sender ! loanId) + REPAYMENT_GRACE_PERIOD < now"
  shows "step w (sender, now, RepayLoan loanId) = w"
  using repayLoan_late_fails [OF assms] by (auto simp: step_def commit_def)

text \<open>
  C1 on the code. The borrower of the test scenario holds an active loan, due at
  \<open>200 + LOAN_DURATION\<close>, and calls \<open>repayLoan(0)\<close> one second after the grace period.
  The branch taken writes the default (the loan inactive, \<open>defaultedLoans = 1\<close>, the score
  down from 75 to 60) and then reverts: the call fails with \<open>Defaulted\<close>, and in the state
  after the transaction the loan is still active, \<open>activeLoanCount\<close> is still 1, and the
  registry shows no default and the score 75. The claim's state changes do not persist.
\<close>

theorem repayLoan_late_rolls_back:
  "isActive (borrowerLoans (pool (run exDeployed (exSetup @ exBorrow))) 2 ! 0)
   \<and> borrower (borrowerLoans (pool (run exDeployed (exSetup @ exBorrow))) 2 ! 0) = 2
   \<and> dueDate (borrowerLoans (pool (run exDeployed (exSetup @ exBorrow))) 2 ! 0)
        + REPAYMENT_GRACE_PERIOD < 3197001
   \<and> (\<exists>w1. markDefaulted (run exDeployed (exSetup @ exBorrow)) 2 3197001 0 = Inr w1
        \<and> \<not> isActive (borrowerLoans (pool w1) 2 ! 0)
        \<and> defaultedLoans (creditProfiles (registry w1) 2) = 1
        \<and> score (creditProfiles (registry w1) 2) = 60)
   \<and> repayLoan (run exDeployed (exSetup @ exBorrow)) 2 3197001 0 = Inl Defaulted
   \<and> isActive (borrowerLoans (pool (run exDeployed (exSetup @ exBorrow @ [(2, 3197001, RepayLoan 0)]))) 2 ! 0)
   \<and> activeLoanCount (pool (run exDeployed (exSetup @ exBorrow @ [(2, 3197001, RepayLoan 0)]))) 2 = 1
   \<and> defaultedLoans (creditProfiles (registry (run exDeployed (exSetup @ exBorrow @ [(2, 3197001, RepayLoan 0)]))) 2) = 0
   \<and> score (creditProfiles (registry (run exDeployed (exSetup @ exBorrow @ [(2, 3197001, RepayLoan 0)]))) 2) = 75"
  by (simp add: eval_defs)


subsection \<open>Repayment and the badge trigger\<close>

text \<open>
  A repayment returns normally only if the trigger, run on the state with the repayment
  booked, returns normally: its result is the result of \<open>repayLoan\<close>.
\<close>

lemma repayLoan_needs_trigger:
  assumes "repayLoan w sender now loanId = Inr w'"
  shows "\<exists>w1. checkAndMintBadge w1 now sender = Inr w'"
  using assms by (auto simp: repayLoan_def Let_def split: if_splits sum.splits)

text \<open>
  C2 on the code. The borrower has repaid two loans and holds a third, active one; the
  oracle has set the score to 40. The repayment is in time and funded (balance and
  allowance cover the 108 USDC due), so every precondition of \<open>repayLoan\<close> holds. The
  registry records the third repayment and lifts the score to 42; the trigger finds three
  repayments and no default and calls \<open>mintBadge\<close>, which rejects the score below 60.
  The revert is the revert of \<open>repayLoan\<close>: the loan stays active and unpaid,
  \<open>totalRepaid\<close> keeps the 216 USDC of the first two loans and the registry still
  counts two repayments.
\<close>

theorem repayLoan_reverts_with_badge:
  "isActive (borrowerLoans (pool (run exDeployed exLowScore)) 2 ! 2)
   \<and> borrower (borrowerLoans (pool (run exDeployed exLowScore)) 2 ! 2) = 2
   \<and> 300 \<le> dueDate (borrowerLoans (pool (run exDeployed exLowScore)) 2 ! 2) + REPAYMENT_GRACE_PERIOD
   \<and> 108000000 \<le> balances (token (run exDeployed exLowScore)) 2
   \<and> 108000000 \<le> allowances (token (run exDeployed exLowScore)) 2 10
   \<and> successfulRepayments (creditProfiles (registry (run exDeployed exLowScore)) 2) = 2
   \<and> defaultedLoans (creditProfiles (registry (run exDeployed exLowScore)) 2) = 0
   \<and> score (creditProfiles (registry (run exDeployed exLowScore)) 2) = 40
   \<and> repayLoan (run exDeployed exLowScore) 2 300 2 = Inl ScoreTooLow
   \<and> isActive (borrowerLoans (pool (run exDeployed (exLowScore @ [(2, 300, RepayLoan 2)]))) 2 ! 2)
   \<and> \<not> isRepaid (borrowerLoans (pool (run exDeployed (exLowScore @ [(2, 300, RepayLoan 2)]))) 2 ! 2)
   \<and> totalRepaid (pool (run exDeployed (exLowScore @ [(2, 300, RepayLoan 2)]))) = 216000000
   \<and> successfulRepayments (creditProfiles (registry (run exDeployed (exLowScore @ [(2, 300, RepayLoan 2)]))) 2) = 2"
  by (simp add: eval_defs exLowScore_def)


subsection \<open>Utilization rate\<close>

lemma getUtilizationRate_underflow:
  "totalDeposits (pool w) \<noteq> 0 \<Longrightarrow> totalBorrowed (pool w) < totalRepaid (pool w) \<Longrightarrow>
     getUtilizationRate w = Inl Panic"
  by (simp add: getUtilizationRate_def Let_def)

text \<open>
  C9 on the code. After the lender's deposit and one loan of 100 USDC repaid with its
  8 USDC of interest, \<open>totalRepaid\<close> (108 USDC) exceeds \<open>totalBorrowed\<close> (100 USDC) while
  \<open>totalDeposits\<close> is not zero: the checked subtraction in \<open>getUtilizationRate\<close> panics.
\<close>

theorem getUtilizationRate_panics_after_repayment:
  "totalDeposits (pool (run exDeployed (exSetup @ exCycle 0))) = 5000000000
   \<and> totalBorrowed (pool (run exDeployed (exSetup @ exCycle 0))) = 100000000
   \<and> totalRepaid (pool (run exDeployed (exSetup @ exCycle 0))) = 108000000
   \<and> getUtilizationRate (run exDeployed (exSetup @ exCycle 0)) = Inl Panic"
  by (simp add: eval_defs)


subsection \<open>Emergency withdrawal\<close>

text \<open>
  C10: called by the pool's owner (a sender that is neither the zero address nor the pool
  itself) with an amount the pool holds, \<open>emergencyWithdraw\<close> succeeds; it moves the
  amount from the pool's balance to the owner's and leaves the pool's own storage
  (\<open>totalDeposits\<close>, every lender's record, every loan), the registry and the badge
  contract as they were. Any other sender is rejected. So the relation between the
  tracked deposits and the held balance is not kept: in the test scenario the pool holds
  the 5000 USDC it tracks after the deposit, and holds nothing against the same tracked
  5000 USDC after the owner has withdrawn them.
\<close>

theorem emergencyWithdraw_leaves_accounting:
  "(sender = poolOwner (pool w) \<and> sender \<noteq> 0 \<and> poolAddr w \<noteq> 0 \<and> sender \<noteq> poolAddr w
      \<and> amt \<le> balances (token w) (poolAddr w) \<longrightarrow>
      (\<exists>w'. emergencyWithdraw w sender amt = Inr w'
         \<and> pool w' = pool w \<and> registry w' = registry w \<and> badge w' = badge w
         \<and> balances (token w') (poolAddr w) = balances (token w) (poolAddr w) - amt
         \<and> balances (token w') sender = balances (token w) sender + amt))
   \<and> (sender \<noteq> poolOwner (pool w) \<longrightarrow> emergencyWithdraw w sender amt = Inl Unauthorized)
   \<and> totalDeposits (pool (run exDeployed exSetup))
        - (totalBorrowed (pool (run exDeployed exSetup)) - totalRepaid (pool (run exDeployed exSetup)))
      \<le> balances (token (run exDeployed exSetup)) 10
   \<and> balances (token (run exDeployed (exSetup @ [(1, 150, EmergencyWithdraw 5000000000)]))) 10
      < totalDeposits (pool (run exDeployed (exSetup @ [(1, 150, EmergencyWithdraw 5000000000)])))
        - (totalBorrowed (pool (run exDeployed (exSetup @ [(1, 150, EmergencyWithdraw 5000000000)])))
           - totalRepaid (pool (run exDeployed (exSetup @ [(1, 150, EmergencyWithdraw 5000000000)]))))"
proof (intro conjI impI)
  assume "sender = poolOwner (pool w) \<and> sender \<noteq> 0 \<and> poolAddr w \<noteq> 0 \<and> sender \<noteq> poolAddr w
      \<and> amt \<le> balances (token w) (poolAddr w)"
  then show "\<exists>w'. emergencyWithdraw w sender amt = Inr w'
         \<and> pool w' = pool w \<and> registry w' = registry w \<and> badge w' = badge w
         \<and> balances (token w') (poolAddr w) = balances (token w) (poolAddr w) - amt
         \<and> balances (token w') sender = balances (token w) sender + amt"
    by (simp add: emergencyWithdraw_def getAvailableLiquidity_def balanceOf_def transfer_def
        move_succeeds)
next
  assume "sender \<noteq> poolOwner (pool w)"
  then show "emergencyWithdraw w sender amt = Inl Unauthorized"
    by (simp add: emergencyWithdraw_def)
qed (simp_all add: eval_defs)

theorem emergencyWithdraw_leaves_accounting_witness:
  "\<exists>w'. emergencyWithdraw (run exDeployed exSetup) 1 5000000000 = Inr w'
      \<and> pool w' = pool (run exDeployed exSetup)
      \<and> balances (token w') 10 = 0
      \<and> totalDeposits (pool w') = 5000000000
      \<and> emergencyWithdraw (run exDeployed exSetup) 3 5000000000 = Inl Unauthorized"
proof -
  have h: "(1::nat) = poolOwner (pool (run exDeployed exSetup)) \<and> (1::nat) \<noteq> 0
      \<and> poolAddr (run exDeployed exSetup) \<noteq> 0 \<and> 1 \<noteq> poolAddr (run exDeployed exSetup)
      \<and> 5000000000 \<le> balances (token (run exDeployed exSetup)) (poolAddr (run exDeployed exSetup))"
    by (simp add: eval_defs)
  have v: "poolAddr (run exDeployed exSetup) = 10"
    "balances (token (run exDeployed exSetup)) 10 = 5000000000"
    "totalDeposits (pool (run exDeployed exSetup)) = 5000000000"
    "3 \<noteq> poolOwner (pool (run exDeployed exSetup))"
    by (simp_all add: eval_defs)
  from emergencyWithdraw_leaves_accounting [of 1 "run exDeployed exSetup" 5000000000]
       emergencyWithdraw_leaves_accounting [of 3 "run exDeployed exSetup" 5000000000]
       h v
  show ?thesis by auto
qed


subsection \<open>The score stays between 0 and 100\<close>

lemma scoreInv_exec:
  assumes "exec w c = Inr w'" and "scoreInv w u"
  shows "scoreInv w' u"
proof -
  obtain s n o' where c: "c = (s, n, o')" by (cases c)
  show ?thesis
  proof (cases o')
    case (Deposit a)
    with assms c show ?thesis by (auto simp: scoreInv_def dest!: deposit_frame)
  next
    case (Withdraw a)
    with assms c show ?thesis by (auto simp: scoreInv_def dest!: withdraw_frame)
  next
    case (RequestLoan a)
    with assms c show ?thesis
      by (auto simp: scoreInv_def dest!: requestLoan_effect recordLoan_effect)
  next
    case (RepayLoan i)
    with assms c have "\<exists>r1. recordRepayment (registry w) (poolAddr w) n s = Inr (registry w')"
      by (auto dest!: repayLoan_effect)
    with assms(2) show ?thesis
      by (cases "u = s") (auto simp: scoreInv_def dest!: recordRepayment_effect)
  next
    case (SetSenteBadge a)
    with assms c show ?thesis by (auto simp: scoreInv_def dest!: setSenteBadge_frame)
  next
    case (EmergencyWithdraw a)
    with assms c show ?thesis by (auto simp: scoreInv_def dest!: emergencyWithdraw_frame)
  next
    case (GrantOracleRole a)
    with assms c show ?thesis
      by (auto simp: scoreInv_def dest!: inRegistry_Inr grantOracleRole_profiles)
  next
    case (CreateProfile x v)
    with assms c show ?thesis
      by (auto simp: scoreInv_def dest!: inRegistry_Inr createProfile_effect)
  next
    case (UpdateScore x v)
    with assms c show ?thesis
      by (auto simp: scoreInv_def dest!: inRegistry_Inr updateScore_effect createProfile_effect)
  next
    case (RecordLoan x)
    with assms c show ?thesis
      by (auto simp: scoreInv_def dest!: inRegistry_Inr recordLoan_effect)
  next
    case (RecordRepayment x)
    with assms c have "recordRepayment (registry w) s n x = Inr (registry w')"
      by (auto dest!: inRegistry_Inr)
    with assms(2) show ?thesis
      by (cases "u = x") (auto simp: scoreInv_def dest!: recordRepayment_effect)
  next
    case (RecordDefault x)
    with assms c have "recordDefault (registry w) s n x = Inr (registry w')"
      by (auto dest!: inRegistry_Inr)
    with assms(2) show ?thesis
      by (cases "u = x") (auto simp: scoreInv_def dest!: recordDefault_effect)
  qed (use assms c in \<open>auto simp: scoreInv_def dest!: inBadge_Inr inToken_Inr\<close>)
qed

lemma scoreInv_step: "scoreInv w u \<Longrightarrow> scoreInv (step w c) u"
  using step_cases [of w c] scoreInv_exec [of w c "step w c" u] by auto

lemma scoreInv_run: "scoreInv w u \<Longrightarrow> scoreInv (run w cs) u"
  by (induction cs rule: rev_induct) (simp_all add: run_Nil run_snoc scoreInv_step)

lemma scoreInv_deploy: "scoreInv (deploy d pa tok rcv) u"
  by (simp add: scoreInv_def deploy_def noProfile_def)

text \<open>
  C4, as stated, fails in one point: \<open>createProfile\<close> checks for an existing profile
  before it checks the score. For the borrower of the test scenario, who has a profile,
  an authorized oracle's \<open>createProfile\<close> with score 101 is rejected with
  \<open>AlreadyExists\<close>, not with \<open>InvalidScore\<close>.
\<close>

theorem createProfile_counterexample:
  "hasOracleRole (registry (run exDeployed exSetup)) 1
   \<and> MAX_SCORE < 101
   \<and> createProfile (registry (run exDeployed exSetup)) 1 200 2 101 = Inl AlreadyExists
   \<and> createProfile (registry (run exDeployed exSetup)) 1 200 2 101 \<noteq> Inl InvalidScore"
  by (simp add: eval_defs)

text \<open>
  C4, amended. After any sequence of calls to the four contracts, every profile's score
  is at most 100 (and at least 0, being unsigned). A call of \<open>updateScore\<close> or
  \<open>createProfile\<close> with a score above 100 changes nothing; made by an authorized oracle,
  \<open>updateScore\<close> rejects it with \<open>InvalidScore\<close>, and \<open>createProfile\<close> rejects it with
  \<open>InvalidScore\<close> when the principal has no profile and with \<open>AlreadyExists\<close> when it has
  one. On a score in range \<open>recordRepayment\<close> adds 2, capped at 100, and \<open>recordDefault\<close>
  subtracts 15, floored at 0.
\<close>

theorem score_in_range:
  "score (creditProfiles (registry (run (deploy d pa tok rcv) cs)) u) \<le> MAX_SCORE
   \<and> (MAX_SCORE < s \<longrightarrow>
        commit r (updateScore r sender now u s) = r
      \<and> commit r (createProfile r sender now u s) = r)
   \<and> (hasOracleRole r sender \<and> MAX_SCORE < s \<longrightarrow>
        updateScore r sender now u s = Inl InvalidScore
      \<and> createProfile r sender now u s =
          Inl (if CreditProfile.isActive (creditProfiles r u) then AlreadyExists
               else InvalidScore))
   \<and> (recordRepayment r sender now u = Inr r' \<and> score (creditProfiles r u) \<le> MAX_SCORE \<longrightarrow>
        score (creditProfiles r' u) = min MAX_SCORE (score (creditProfiles r u) + 2))
   \<and> (recordDefault r sender now u = Inr r' \<longrightarrow>
        score (creditProfiles r' u) =
          (if 15 < score (creditProfiles r u) then score (creditProfiles r u) - 15 else 0))"
proof -
  have "scoreInv (run (deploy d pa tok rcv) cs) u"
    by (rule scoreInv_run [OF scoreInv_deploy])
  then have inv: "score (creditProfiles (registry (run (deploy d pa tok rcv) cs)) u) \<le> MAX_SCORE"
    by (simp add: scoreInv_def)
  have rej: "commit r (updateScore r sender now u s) = r
      \<and> commit r (createProfile r sender now u s) = r" if "MAX_SCORE < s"
    using that by (simp add: commit_def updateScore_def createProfile_def)
  have err: "updateScore r sender now u s = Inl InvalidScore
      \<and> createProfile r sender now u s =
          Inl (if CreditProfile.isActive (creditProfiles r u) then AlreadyExists
               else InvalidScore)" if "hasOracleRole r sender \<and> MAX_SCORE < s"
    using that by (simp add: updateScore_def createProfile_def)
  have rep: "score (creditProfiles r' u) = min MAX_SCORE (score (creditProfiles r u) + 2)"
    if "recordRepayment r sender now u = Inr r' \<and> score (creditProfiles r u) \<le> MAX_SCORE"
    using that by (auto simp: MAX_SCORE_def dest!: recordRepayment_effect)
  have dflt: "score (creditProfiles r' u) =
          (if 15 < score (creditProfiles r u) then score (creditProfiles r u) - 15 else 0)"
    if "recordDefault r sender now u = Inr r'"
    using that by (auto dest!: recordDefault_effect)
  from inv rej err rep dflt show ?thesis by blast
qed

theorem score_in_range_witness:
  "\<exists>r1 r2. hasOracleRole (registry (run exDeployed exSetup)) 1 \<and> MAX_SCORE < 101
     \<and> score (creditProfiles (registry (run exDeployed exSetup)) 2) = 75
     \<and> updateScore (registry (run exDeployed exSetup)) 1 200 2 101 = Inl InvalidScore
     \<and> createProfile (registry (run exDeployed exSetup)) 1 200 7 101 = Inl InvalidScore
     \<and> recordRepayment (registry (run exDeployed exSetup)) 1 200 2 = Inr r1
     \<and> score (creditProfiles r1 2) = 77
     \<and> recordDefault (registry (run exDeployed exSetup)) 1 200 2 = Inr r2
     \<and> score (creditProfiles r2 2) = 60"
proof -
  have h: "hasOracleRole (registry (run exDeployed exSetup)) 1" "MAX_SCORE < 101"
    "score (creditProfiles (registry (run exDeployed exSetup)) 2) = 75"
    "\<not> CreditProfile.isActive (creditProfiles (registry (run exDeployed exSetup)) 7)"
    by (simp_all add: eval_defs)
  have "\<exists>r1. recordRepayment (registry (run exDeployed exSetup)) 1 200 2 = Inr r1"
    by (simp add: eval_defs)
  then obtain r1 where r1: "recordRepayment (registry (run exDeployed exSetup)) 1 200 2 = Inr r1"
    by blast
  have "\<exists>r2. recordDefault (registry (run exDeployed exSetup)) 1 200 2 = Inr r2"
    by (simp add: eval_defs)
  then obtain r2 where r2: "recordDefault (registry (run exDeployed exSetup)) 1 200 2 = Inr r2"
    by blast
  from score_in_range [of 1 10 exToken "\<lambda>_. True" exSetup 2 101
         "registry (run exDeployed exSetup)" 1 200 r1]
       score_in_range [of 1 10 exToken "\<lambda>_. True" exSetup 2 101
         "registry (run exDeployed exSetup)" 1 200 r2]
       score_in_range [of 1 10 exToken "\<lambda>_. True" exSetup 7 101
         "registry (run exDeployed exSetup)" 1 200 r2]
       h r1 r2
  show ?thesis by (auto simp: MAX_SCORE_def)
qed


subsection \<open>The profile counters\<close>

lemma countersInv_exec:
  assumes "exec w c = Inr w'" and "countersInv w u" and "\<not> reportsOutcome (snd (snd c))"
  shows "countersInv w' u"
proof -
  obtain s n o' where c: "c = (s, n, o')" by (cases c)
  show ?thesis
  proof (cases o')
    case (Deposit a)
    with assms c show ?thesis by (auto simp: countersInv_def dest!: deposit_frame)
  next
    case (Withdraw a)
    with assms c show ?thesis by (auto simp: countersInv_def dest!: withdraw_frame)
  next
    case (RequestLoan a)
    with assms c show ?thesis
      by (auto simp: countersInv_def dest!: requestLoan_effect recordLoan_effect)
  next
    case (RepayLoan i)
    with assms c have e: "recordRepayment (registry w) (poolAddr w) n s = Inr (registry w')"
      "0 < activeLoanCount (pool w) s"
      "activeLoanCount (pool w') = (activeLoanCount (pool w))(s := activeLoanCount (pool w) s - 1)"
      by (auto dest!: repayLoan_effect)
    with assms(2) show ?thesis
      by (cases "u = s") (auto simp: countersInv_def dest!: recordRepayment_effect)
  next
    case (SetSenteBadge a)
    with assms c show ?thesis by (auto simp: countersInv_def dest!: setSenteBadge_frame)
  next
    case (EmergencyWithdraw a)
    with assms c show ?thesis by (auto simp: countersInv_def dest!: emergencyWithdraw_frame)
  next
    case (GrantOracleRole a)
    with assms c show ?thesis
      by (auto simp: countersInv_def dest!: inRegistry_Inr grantOracleRole_profiles)
  next
    case (CreateProfile x v)
    with assms c show ?thesis
      by (auto simp: countersInv_def dest!: inRegistry_Inr createProfile_effect)
  next
    case (UpdateScore x v)
    with assms c show ?thesis
      by (auto simp: countersInv_def dest!: inRegistry_Inr updateScore_effect createProfile_effect)
  next
    case (RecordLoan x)
    with assms c show ?thesis
      by (auto simp: countersInv_def dest!: inRegistry_Inr recordLoan_effect)
  next
    case (RecordRepayment x)
    with assms c show ?thesis by simp
  next
    case (RecordDefault x)
    with assms c show ?thesis by simp
  qed (use assms c in \<open>auto simp: countersInv_def dest!: inBadge_Inr inToken_Inr\<close>)
qed

lemma countersInv_step:
  "countersInv w u \<Longrightarrow> \<not> reportsOutcome (snd (snd c)) \<Longrightarrow> countersInv (step w c) u"
  using step_cases [of w c] countersInv_exec [of w c "step w c" u] by auto

lemma countersInv_run:
  "countersInv w u \<Longrightarrow> poolReported cs \<Longrightarrow> countersInv (run w cs) u"
  by (induction cs rule: rev_induct)
     (simp_all add: run_Nil run_snoc countersInv_step poolReported_def)

lemma countersInv_deploy: "countersInv (deploy d pa tok rcv) u"
  by (simp add: countersInv_def deploy_def noProfile_def)

text \<open>
  C3, as stated, fails: the registry accepts \<open>recordRepayment\<close> from any authorized oracle
  without looking at \<open>totalLoans\<close>. The deployer, who holds the oracle role, creates a
  profile and reports one repayment: \<open>totalLoans = 0\<close> and \<open>successfulRepayments = 1\<close>.
\<close>

theorem counters_counterexample:
  "hasOracleRole (registry exDeployed) 1
   \<and> \<not> countersCoherent (run exDeployed
        [(1, 100, CreateProfile 2 75), (1, 100, RecordRepayment 2)]) 2
   \<and> totalLoans (creditProfiles (registry (run exDeployed
        [(1, 100, CreateProfile 2 75), (1, 100, RecordRepayment 2)])) 2) = 0
   \<and> successfulRepayments (creditProfiles (registry (run exDeployed
        [(1, 100, CreateProfile 2 75), (1, 100, RecordRepayment 2)])) 2) = 1"
  by (simp add: eval_defs countersCoherent_def)

text \<open>
  C3, amended: in every execution in which \<open>recordRepayment\<close> and \<open>recordDefault\<close> reach
  the registry through the pool only (all other calls, among them direct
  \<open>createProfile\<close>, \<open>updateScore\<close> and \<open>recordLoan\<close> by any oracle, are arbitrary), every
  principal's counters satisfy \<open>successfulRepayments + defaultedLoans \<le> totalLoans\<close> in
  every state the execution reaches.
\<close>

theorem counters_coherent_pool_reported:
  assumes "poolReported cs"
  shows "countersCoherent (run (deploy d pa tok rcv) cs) u"
proof -
  have "countersInv (run (deploy d pa tok rcv) cs) u"
    using countersInv_deploy assms by (rule countersInv_run)
  then show ?thesis by (simp add: countersInv_def countersCoherent_def)
qed

theorem counters_coherent_pool_reported_witness:
  "poolReported exThreeCycles
   \<and> countersCoherent (run exDeployed exThreeCycles) 2
   \<and> totalLoans (creditProfiles (registry (run exDeployed exThreeCycles)) 2) = 3
   \<and> successfulRepayments (creditProfiles (registry (run exDeployed exThreeCycles)) 2) = 3"
proof -
  have p: "poolReported exThreeCycles"
    by (simp add: poolReported_def exThreeCycles_def exSetup_def exCycle_def exBorrow_def)
  have v: "totalLoans (creditProfiles (registry (run exDeployed exThreeCycles)) 2) = 3
    \<and> successfulRepayments (creditProfiles (registry (run exDeployed exThreeCycles)) 2) = 3"
    by (simp add: eval_defs exThreeCycles_def)
  from counters_coherent_pool_reported [OF p, of 1 10 exToken "\<lambda>_. True" 2, folded exDeployed_def]
    p v
  show ?thesis by simp
qed


subsection \<open>At most one active loan\<close>

lemma filter_active_close:
  "i < length xs \<Longrightarrow> isActive (xs ! i) \<Longrightarrow>
     length (filter isActive (xs[i := (xs ! i)\<lparr>isActive := False, isRepaid := True\<rparr>]))
       = length (filter isActive xs) - 1"
proof (induction xs arbitrary: i)
  case Nil
  then show ?case by simp
next
  case (Cons x xs)
  show ?case
  proof (cases i)
    case 0
    with Cons.prems show ?thesis by simp
  next
    case (Suc j)
    with Cons.prems have j: "j < length xs" "isActive (xs ! j)" by simp_all
    have pos: "0 < length (filter isActive xs)"
      using j by (metis filter_empty_conv length_greater_0_conv nth_mem)
    show ?thesis
      using Suc Cons.IH [OF j] pos by simp
  qed
qed

lemma loansInv_exec:
  assumes "exec w c = Inr w'" and "loansInv w b"
  shows "loansInv w' b"
proof -
  obtain s n o' where c: "c = (s, n, o')" by (cases c)
  show ?thesis
  proof (cases o')
    case (Deposit a)
    with assms c show ?thesis by (auto simp: loansInv_def dest!: deposit_frame)
  next
    case (Withdraw a)
    with assms c show ?thesis by (auto simp: loansInv_def dest!: withdraw_frame)
  next
    case (RequestLoan a)
    with assms c show ?thesis by (auto simp: loansInv_def dest!: requestLoan_effect)
  next
    case (RepayLoan i)
    with assms c show ?thesis
      by (auto simp: loansInv_def filter_active_close dest!: repayLoan_effect)
  next
    case (SetSenteBadge a)
    with assms c show ?thesis by (auto simp: loansInv_def dest!: setSenteBadge_frame)
  next
    case (EmergencyWithdraw a)
    with assms c show ?thesis by (auto simp: loansInv_def dest!: emergencyWithdraw_frame)
  qed (use assms c in \<open>auto simp: loansInv_def dest!: inRegistry_Inr inBadge_Inr inToken_Inr\<close>)
qed

lemma loansInv_step: "loansInv w b \<Longrightarrow> loansInv (step w c) b"
  using step_cases [of w c] loansInv_exec [of w c "step w c" b] by auto

lemma loansInv_run: "loansInv w b \<Longrightarrow> loansInv (run w cs) b"
  by (induction cs rule: rev_induct) (simp_all add: run_Nil run_snoc loansInv_step)

lemma loansInv_deploy: "loansInv (deploy d pa tok rcv) b"
  by (simp add: loansInv_def deploy_def)

lemma terminal_exec:
  assumes "exec w c = Inr w'"
    and "i < length (borrowerLoans (pool w) b)"
    and "\<not> isActive (borrowerLoans (pool w) b ! i)"
  shows "i < length (borrowerLoans (pool w') b)
         \<and> borrowerLoans (pool w') b ! i = borrowerLoans (pool w) b ! i"
proof -
  obtain s n o' where c: "c = (s, n, o')" by (cases c)
  show ?thesis
  proof (cases o')
    case (Deposit a)
    with assms c show ?thesis by (auto dest!: deposit_frame)
  next
    case (Withdraw a)
    with assms c show ?thesis by (auto dest!: withdraw_frame)
  next
    case (RequestLoan a)
    with assms c show ?thesis by (auto simp: nth_append dest!: requestLoan_effect)
  next
    case (RepayLoan j)
    with assms c show ?thesis
      by (auto simp: nth_list_update dest!: repayLoan_effect)
  next
    case (SetSenteBadge a)
    with assms c show ?thesis by (auto dest!: setSenteBadge_frame)
  next
    case (EmergencyWithdraw a)
    with assms c show ?thesis by (auto dest!: emergencyWithdraw_frame)
  qed (use assms c in \<open>auto dest!: inRegistry_Inr inBadge_Inr inToken_Inr\<close>)
qed

lemma terminal_step:
  "i < length (borrowerLoans (pool w) b) \<Longrightarrow> \<not> isActive (borrowerLoans (pool w) b ! i) \<Longrightarrow>
     i < length (borrowerLoans (pool (step w c)) b)
     \<and> borrowerLoans (pool (step w c)) b ! i = borrowerLoans (pool w) b ! i"
  using step_cases [of w c] terminal_exec [of w c "step w c" i b] by auto

lemma terminal_run:
  "i < length (borrowerLoans (pool w) b) \<Longrightarrow> \<not> isActive (borrowerLoans (pool w) b ! i) \<Longrightarrow>
     i < length (borrowerLoans (pool (run w cs)) b)
     \<and> borrowerLoans (pool (run w cs)) b ! i = borrowerLoans (pool w) b ! i"
proof (induction cs arbitrary: w)
  case Nil
  then show ?case by (simp add: run_Nil)
next
  case (Cons c cs)
  from terminal_step [OF Cons.prems, of c]
  have s: "i < length (borrowerLoans (pool (step w c)) b)"
    "borrowerLoans (pool (step w c)) b ! i = borrowerLoans (pool w) b ! i"
    by simp_all
  with Cons.prems have "\<not> isActive (borrowerLoans (pool (step w c)) b ! i)" by simp
  from Cons.IH [OF s(1) this] s show ?case by (simp add: run_Cons)
qed

lemma requestLoan_active:
  "activeLoanCount (pool w) b \<noteq> 0 \<Longrightarrow>
     requestLoan w b now amt =
       Inl (if amt < MIN_LOAN_AMOUNT then AmountTooLow
            else if MAX_LOAN_AMOUNT < amt then AmountTooHigh
            else ActiveLoanExists)"
  by (simp add: requestLoan_def Let_def)

text \<open>
  C5, as stated, fails in one point: \<open>requestLoan\<close> checks the amount before it checks for
  an active loan. The borrower of the test scenario, holding an active loan, requests
  the amount 1 and is rejected with \<open>AmountTooLow\<close>, not with \<open>ActiveLoanExists\<close>.
\<close>

theorem requestLoan_counterexample:
  "isActive (borrowerLoans (pool (run exDeployed (exSetup @ exBorrow))) 2 ! 0)
   \<and> requestLoan (run exDeployed (exSetup @ exBorrow)) 2 300 1 = Inl AmountTooLow
   \<and> requestLoan (run exDeployed (exSetup @ exBorrow)) 2 300 1 \<noteq> Inl ActiveLoanExists"
  by (simp add: eval_defs)

text \<open>
  C5, amended. In every state reached from deployment each borrower has at most one
  active loan. There \<open>requestLoan\<close> by a borrower with an active loan always fails: with
  \<open>ActiveLoanExists\<close> for an amount between \<open>MIN_LOAN_AMOUNT\<close> and \<open>MAX_LOAN_AMOUNT\<close>, with
  \<open>AmountTooLow\<close> or \<open>AmountTooHigh\<close> for any other amount. In any state, a loan record
  that is not active (repaid or defaulted) stays in place and unchanged through every
  further sequence of calls.
\<close>

theorem one_active_loan:
  "length (filter isActive (borrowerLoans (pool (run (deploy d pa tok rcv) cs)) b)) \<le> 1
   \<and> (filter isActive (borrowerLoans (pool (run (deploy d pa tok rcv) cs)) b) \<noteq> [] \<longrightarrow>
        requestLoan (run (deploy d pa tok rcv) cs) b now amt =
          Inl (if amt < MIN_LOAN_AMOUNT then AmountTooLow
               else if MAX_LOAN_AMOUNT < amt then AmountTooHigh
               else ActiveLoanExists))
   \<and> (i < length (borrowerLoans (pool w) b) \<and> \<not> isActive (borrowerLoans (pool w) b ! i) \<longrightarrow>
        i < length (borrowerLoans (pool (run w cs')) b)
        \<and> borrowerLoans (pool (run w cs')) b ! i = borrowerLoans (pool w) b ! i)"
proof -
  have inv: "loansInv (run (deploy d pa tok rcv) cs) b"
    by (rule loansInv_run [OF loansInv_deploy])
  then have one: "length (filter isActive (borrowerLoans (pool (run (deploy d pa tok rcv) cs)) b)) \<le> 1"
    by (simp add: loansInv_def)
  have busy: "requestLoan (run (deploy d pa tok rcv) cs) b now amt =
          Inl (if amt < MIN_LOAN_AMOUNT then AmountTooLow
               else if MAX_LOAN_AMOUNT < amt then AmountTooHigh
               else ActiveLoanExists)"
    if "filter isActive (borrowerLoans (pool (run (deploy d pa tok rcv) cs)) b) \<noteq> []"
  proof -
    from that inv have "activeLoanCount (pool (run (deploy d pa tok rcv) cs)) b \<noteq> 0"
      by (simp add: loansInv_def)
    then show ?thesis by (rule requestLoan_active)
  qed
  have final: "i < length (borrowerLoans (pool (run w cs')) b)
        \<and> borrowerLoans (pool (run w cs')) b ! i = borrowerLoans (pool w) b ! i"
    if "i < length (borrowerLoans (pool w) b) \<and> \<not> isActive (borrowerLoans (pool w) b ! i)"
    using that terminal_run [of i w b cs'] by simp
  from one busy final show ?thesis by blast
qed

theorem one_active_loan_witness:
  "filter isActive (borrowerLoans (pool (run exDeployed (exSetup @ exBorrow))) 2) \<noteq> []
   \<and> length (filter isActive (borrowerLoans (pool (run exDeployed (exSetup @ exBorrow))) 2)) \<le> 1
   \<and> requestLoan (run exDeployed (exSetup @ exBorrow)) 2 300 50000000 = Inl ActiveLoanExists
   \<and> 0 < length (borrowerLoans (pool (run exDeployed (exSetup @ exCycle 0))) 2)
   \<and> \<not> isActive (borrowerLoans (pool (run exDeployed (exSetup @ exCycle 0))) 2 ! 0)
   \<and> borrowerLoans (pool (run (run exDeployed (exSetup @ exCycle 0)) (exCycle 1))) 2 ! 0
       = borrowerLoans (pool (run exDeployed (exSetup @ exCycle 0))) 2 ! 0"
proof -
  have a: "filter isActive (borrowerLoans (pool (run exDeployed (exSetup @ exBorrow))) 2) \<noteq> []"
    by (simp add: eval_defs)
  have t: "0 < length (borrowerLoans (pool (run exDeployed (exSetup @ exCycle 0))) 2)
     \<and> \<not> isActive (borrowerLoans (pool (run exDeployed (exSetup @ exCycle 0))) 2 ! 0)"
    by (simp add: eval_defs)
  from one_active_loan [of 1 10 exToken "\<lambda>_. True" "exSetup @ exBorrow" 2 300 50000000 0
         "run exDeployed (exSetup @ exCycle 0)" "exCycle 1", folded exDeployed_def]
    a t
  show ?thesis by (simp add: MIN_LOAN_AMOUNT_def MAX_LOAN_AMOUNT_def)
qed


subsection \<open>The badge trigger runs once\<close>

lemma badgeInv_mint:
  "mintBadge b rcv s n to cs rc = Inr (b', t) \<Longrightarrow> badgeInv b \<Longrightarrow> badgeInv b'"
  by (auto simp: badgeInv_def dest!: mintBadge_effect split: if_splits)

lemma badgeInv_exec:
  assumes "exec w c = Inr w'" and "badgeInv (badge w)"
  shows "badgeInv (badge w')"
proof -
  obtain s n o' where c: "c = (s, n, o')" by (cases c)
  show ?thesis
  proof (cases o')
    case (Deposit a)
    with assms c show ?thesis by (auto dest!: deposit_frame)
  next
    case (Withdraw a)
    with assms c show ?thesis by (auto dest!: withdraw_frame)
  next
    case (RequestLoan a)
    with assms c show ?thesis by (auto dest!: requestLoan_effect)
  next
    case (RepayLoan i)
    with assms c show ?thesis by (auto dest!: repayLoan_effect badgeInv_mint)
  next
    case (SetSenteBadge a)
    with assms c show ?thesis by (auto dest!: setSenteBadge_frame)
  next
    case (EmergencyWithdraw a)
    with assms c show ?thesis by (auto dest!: emergencyWithdraw_frame)
  next
    case (SetAuthorizedMinter m a)
    with assms c show ?thesis
      by (auto simp: badgeInv_def dest!: inBadge_Inr setAuthorizedMinter_effect)
  next
    case (MintBadge to cs rc)
    with assms c show ?thesis
      by (auto simp: map_sum_def dest!: inBadge_Inr badgeInv_mint split: sum.splits)
  qed (use assms c in \<open>auto dest!: inRegistry_Inr inToken_Inr\<close>)
qed

lemma badgeInv_step: "badgeInv (badge w) \<Longrightarrow> badgeInv (badge (step w c))"
  using step_cases [of w c] badgeInv_exec [of w c "step w c"] by auto

lemma badgeInv_run: "badgeInv (badge w) \<Longrightarrow> badgeInv (badge (run w cs))"
  by (induction cs rule: rev_induct) (simp_all add: run_Nil run_snoc badgeInv_step)

lemma badgeInv_deploy: "badgeInv (badge (deploy d pa tok rcv))"
  by (simp add: badgeInv_def deploy_def)

lemma checkAndMintBadge_holder:
  "b \<noteq> 0 \<Longrightarrow> 0 < nftBalances (badge w) b \<Longrightarrow> checkAndMintBadge w now b = Inr w"
  by (simp add: checkAndMintBadge_def nftBalanceOf_def)

lemma checkAndMintBadge_cases:
  "checkAndMintBadge w now b = Inr w1 \<Longrightarrow>
     (w1 = w \<and> checkAndMintBadge w now' b = Inr w)
     \<or> (\<exists>t. mintBadge (badge w) (erc721Receiver w) (poolAddr w) now b
               (score (creditProfiles (registry w) b))
               (successfulRepayments (creditProfiles (registry w) b)) = Inr (badge w1, t))"
  by (auto simp: checkAndMintBadge_def Let_def getProfile_def split: if_splits sum.splits)

lemma checkAndMintBadge_again:
  assumes "checkAndMintBadge w now b = Inr w1"
  shows "checkAndMintBadge w1 now' b = Inr w1"
  using checkAndMintBadge_cases [OF assms, of now']
proof
  assume "w1 = w \<and> checkAndMintBadge w now' b = Inr w"
  then show ?thesis by simp
next
  assume "\<exists>t. mintBadge (badge w) (erc721Receiver w) (poolAddr w) now b
               (score (creditProfiles (registry w) b))
               (successfulRepayments (creditProfiles (registry w) b)) = Inr (badge w1, t)"
  then obtain t where "mintBadge (badge w) (erc721Receiver w) (poolAddr w) now b
       (score (creditProfiles (registry w) b))
       (successfulRepayments (creditProfiles (registry w) b)) = Inr (badge w1, t)"
    by blast
  from mintBadge_effect [OF this] have "b \<noteq> 0" "0 < nftBalances (badge w1) b" by simp_all
  then show ?thesis by (rule checkAndMintBadge_holder)
qed

lemma checkAndMintBadge_minted:
  assumes "checkAndMintBadge w now b = Inr w1" and "badge w1 \<noteq> badge w"
  shows "3 \<le> successfulRepayments (creditProfiles (registry w) b)
         \<and> defaultedLoans (creditProfiles (registry w) b) = 0
         \<and> nftBalances (badge w) b = 0 \<and> nftBalances (badge w1) b = 1
         \<and> hasBadge (badge w1) b
         \<and> nextTokenId (badge w1) = nextTokenId (badge w) + 1"
  using assms
  by (auto simp: checkAndMintBadge_def nftBalanceOf_def getProfile_def Let_def
      split: if_splits sum.splits dest!: mintBadge_effect)

lemma mintBadge_stores:
  "mintBadge b rcv s n to cs rc = Inr (b', t) \<Longrightarrow>
     t = nextTokenId b \<and> nftOwners b t = 0
     \<and> nftOwners b' = (nftOwners b)(t := to)
     \<and> badges b' = (badges b)(t :=
          \<lparr>creditScore = cs, repaymentsCount = rc, mintedAt = n, tier = determineTier cs rc\<rparr>)"
  by (auto simp: mintBadge_def safeMint_def nftUpdate_def Let_def split: if_splits sum.splits)

lemma mintBadge_succeeds:
  assumes "authorizedMinters b s \<or> s = badgeOwner b" and "to \<noteq> 0" and "\<not> hasBadge b to"
    and "60 \<le> cs" and "nextTokenId b < MAX_UINT256" and "nftOwners b (nextTokenId b) = 0"
    and "rcv to"
  shows "\<exists>b'. mintBadge b rcv s n to cs rc = Inr (b', nextTokenId b)
           \<and> nextTokenId b' = nextTokenId b + 1"
  using assms by (auto simp: mintBadge_def safeMint_def nftUpdate_def Let_def)

lemma checkAndMintBadge_mints:
  assumes "senteBadge (pool w) \<noteq> 0" and "b \<noteq> 0" and "nftBalances (badge w) b = 0"
    and "\<not> hasBadge (badge w) b"
    and "3 \<le> successfulRepayments (creditProfiles (registry w) b)"
    and "defaultedLoans (creditProfiles (registry w) b) = 0"
    and "60 \<le> score (creditProfiles (registry w) b)"
    and "authorizedMinters (badge w) (poolAddr w) \<or> poolAddr w = badgeOwner (badge w)"
    and "nextTokenId (badge w) < MAX_UINT256"
    and "nftOwners (badge w) (nextTokenId (badge w)) = 0"
    and "erc721Receiver w b"
  shows "\<exists>w1. checkAndMintBadge w now b = Inr w1 \<and> badge w1 \<noteq> badge w"
proof -
  have "\<exists>b'. mintBadge (badge w) (erc721Receiver w) (poolAddr w) now b
        (score (creditProfiles (registry w) b))
        (successfulRepayments (creditProfiles (registry w) b)) = Inr (b', nextTokenId (badge w))
      \<and> nextTokenId b' = nextTokenId (badge w) + 1"
    by (rule mintBadge_succeeds [where rcv = "erc721Receiver w"]) (use assms in simp_all)
  then obtain b' where m: "mintBadge (badge w) (erc721Receiver w) (poolAddr w) now b
        (score (creditProfiles (registry w) b))
        (successfulRepayments (creditProfiles (registry w) b)) = Inr (b', nextTokenId (badge w))"
    and k: "nextTokenId b' = nextTokenId (badge w) + 1"
    by blast
  from k have "b' \<noteq> badge w" by auto
  with m assms show ?thesis
    by (simp add: checkAndMintBadge_def nftBalanceOf_def getProfile_def Let_def)
qed

lemma checkAndMintBadge_stored:
  assumes "checkAndMintBadge w now b = Inr w1" and "badge w1 \<noteq> badge w"
  shows "nftOwners (badge w1) = (nftOwners (badge w))(nextTokenId (badge w) := b)
         \<and> badges (badge w1) = (badges (badge w))(nextTokenId (badge w) :=
              \<lparr>creditScore = score (creditProfiles (registry w) b),
               repaymentsCount = successfulRepayments (creditProfiles (registry w) b),
               mintedAt = now,
               tier = determineTier (score (creditProfiles (registry w) b))
                        (successfulRepayments (creditProfiles (registry w) b))\<rparr>)"
  using assms
  by (auto simp: checkAndMintBadge_def nftBalanceOf_def getProfile_def Let_def
      split: if_splits sum.splits dest!: mintBadge_stores)

lemma ownersInv_mint:
  assumes "mintBadge b rcv s n to cs rc = Inr (b', t)" and "ownersInv b"
  shows "ownersInv b'"
proof -
  from mintBadge_effect [OF assms(1)]
  have e1: "to \<noteq> 0" "\<not> hasBadge b to" "hasBadge b' = (hasBadge b)(to := True)"
    by simp_all
  from mintBadge_stores [OF assms(1)]
  have e2: "nftOwners b t = 0" "nftOwners b' = (nftOwners b)(t := to)"
    by blast+
  note e = e1 e2
  from assms(2) have i1: "\<And>a. hasBadge b a \<Longrightarrow> a \<noteq> 0 \<and> (\<exists>u. nftOwners b u = a)"
    and i2: "\<And>u. nftOwners b u \<noteq> 0 \<Longrightarrow> hasBadge b (nftOwners b u)"
    and i3: "\<And>u u'. nftOwners b u = nftOwners b u' \<Longrightarrow> nftOwners b u \<noteq> 0 \<Longrightarrow> u = u'"
    by (auto simp: ownersInv_def)
  have a1: "a \<noteq> 0 \<and> (\<exists>u. nftOwners b' u = a)" if "hasBadge b' a" for a
  proof (cases "a = to")
    case True
    with e show ?thesis by auto
  next
    case False
    with that e have "hasBadge b a" by simp
    from i1 [OF this] obtain u where u: "a \<noteq> 0" "nftOwners b u = a" by blast
    with e have "u \<noteq> t" by auto
    with u e show ?thesis by auto
  qed
  have a2: "hasBadge b' (nftOwners b' u)" if "nftOwners b' u \<noteq> 0" for u
    using that e i2 [of u] by (cases "u = t") auto
  have a3: "u = u'" if "nftOwners b' u = nftOwners b' u'" "nftOwners b' u \<noteq> 0" for u u'
  proof (cases "u = t")
    case True
    show ?thesis
    proof (cases "u' = t")
      case True
      with \<open>u = t\<close> show ?thesis by simp
    next
      case False
      with True that e have "nftOwners b u' = to" by simp
      with e i2 [of u'] show ?thesis by simp
    qed
  next
    case False
    show ?thesis
    proof (cases "u' = t")
      case True
      with False that e have "nftOwners b u = to" by simp
      with e i2 [of u] show ?thesis by simp
    next
      case False
      with \<open>u \<noteq> t\<close> that e i3 [of u u'] show ?thesis by simp
    qed
  qed
  from a1 a2 a3 show ?thesis unfolding ownersInv_def by blast
qed

lemma setAuthorizedMinter_owners:
  "setAuthorizedMinter b s m a = Inr b' \<Longrightarrow>
     hasBadge b' = hasBadge b \<and> nftOwners b' = nftOwners b"
  by (auto simp: setAuthorizedMinter_def split: if_splits)

lemma ownersInv_exec:
  assumes "exec w c = Inr w'" and "ownersInv (badge w)"
  shows "ownersInv (badge w')"
proof -
  obtain s n o' where c: "c = (s, n, o')" by (cases c)
  show ?thesis
  proof (cases o')
    case (Deposit a)
    with assms c show ?thesis by (auto dest!: deposit_frame)
  next
    case (Withdraw a)
    with assms c show ?thesis by (auto dest!: withdraw_frame)
  next
    case (RequestLoan a)
    with assms c show ?thesis by (auto dest!: requestLoan_effect)
  next
    case (RepayLoan i)
    with assms c show ?thesis by (auto dest!: repayLoan_effect ownersInv_mint)
  next
    case (SetSenteBadge a)
    with assms c show ?thesis by (auto dest!: setSenteBadge_frame)
  next
    case (EmergencyWithdraw a)
    with assms c show ?thesis by (auto dest!: emergencyWithdraw_frame)
  next
    case (SetAuthorizedMinter m a)
    with assms c show ?thesis
      by (auto simp: ownersInv_def dest!: inBadge_Inr setAuthorizedMinter_owners)
  next
    case (MintBadge to cs rc)
    with assms c show ?thesis
      by (auto simp: map_sum_def dest!: inBadge_Inr ownersInv_mint split: sum.splits)
  qed (use assms c in \<open>auto dest!: inRegistry_Inr inToken_Inr\<close>)
qed

lemma ownersInv_step: "ownersInv (badge w) \<Longrightarrow> ownersInv (badge (step w c))"
  using step_cases [of w c] ownersInv_exec [of w c "step w c"] by auto

lemma ownersInv_run: "ownersInv (badge w) \<Longrightarrow> ownersInv (badge (run w cs))"
  by (induction cs rule: rev_induct) (simp_all add: run_Nil run_snoc ownersInv_step)

lemma ownersInv_deploy: "ownersInv (badge (deploy d pa tok rcv))"
  by (simp add: ownersInv_def deploy_def)

lemma ownersInv_unique:
  "ownersInv b \<Longrightarrow> hasBadge b a \<Longrightarrow> \<exists>!t. nftOwners b t = a"
  unfolding ownersInv_def by (metis)

lemma ownersInv_none:
  "ownersInv b \<Longrightarrow> \<not> hasBadge b a \<Longrightarrow> a \<noteq> 0 \<Longrightarrow> nftOwners b t \<noteq> a"
  unfolding ownersInv_def by blast

text \<open>
  C7. If a run of the trigger \<open>_checkAndMintBadge\<close> for a principal returns, a second run
  in the state it leaves returns too and changes nothing. A run that changes the badge
  contract found at least three repayments and no default at the registry and no token
  with the principal; it leaves the principal with exactly one token, sets the flag, and
  stores exactly one new credential: the record of the score, the repayment count, the
  time and the tier under the next token id, owned by the principal, every other record
  and owner as before. The trigger does mint: for a principal without a badge, with at
  least three repayments, no default and a score of at least 60, it returns with the
  badge contract changed, provided the badge contract is set, the pool may mint, the next
  token id is free and below the \<^verbatim>\<open>uint256\<close> limit, and the principal accepts the token.
  In every state reached from deployment, the trigger for a principal whose \<open>hasBadge\<close>
  flag is set returns without an error and without a change, that principal owns exactly
  one token, and a principal without the flag owns none.
\<close>

theorem checkAndMintBadge_idempotent:
  "(checkAndMintBadge w now b = Inr w1 \<longrightarrow>
        checkAndMintBadge w1 now' b = Inr w1
      \<and> (badge w1 \<noteq> badge w \<longrightarrow>
           3 \<le> successfulRepayments (creditProfiles (registry w) b)
         \<and> defaultedLoans (creditProfiles (registry w) b) = 0
         \<and> nftBalances (badge w) b = 0 \<and> nftBalances (badge w1) b = 1
         \<and> hasBadge (badge w1) b
         \<and> nextTokenId (badge w1) = nextTokenId (badge w) + 1
         \<and> nftOwners (badge w1) = (nftOwners (badge w))(nextTokenId (badge w) := b)
         \<and> badges (badge w1) = (badges (badge w))(nextTokenId (badge w) :=
              \<lparr>creditScore = score (creditProfiles (registry w) b),
               repaymentsCount = successfulRepayments (creditProfiles (registry w) b),
               mintedAt = now,
               tier = determineTier (score (creditProfiles (registry w) b))
                        (successfulRepayments (creditProfiles (registry w) b))\<rparr>)))
   \<and> (senteBadge (pool w) \<noteq> 0 \<and> b \<noteq> 0
      \<and> nftBalances (badge w) b = 0 \<and> \<not> hasBadge (badge w) b
      \<and> 3 \<le> successfulRepayments (creditProfiles (registry w) b)
      \<and> defaultedLoans (creditProfiles (registry w) b) = 0
      \<and> 60 \<le> score (creditProfiles (registry w) b)
      \<and> (authorizedMinters (badge w) (poolAddr w) \<or> poolAddr w = badgeOwner (badge w))
      \<and> nextTokenId (badge w) < MAX_UINT256
      \<and> nftOwners (badge w) (nextTokenId (badge w)) = 0
      \<and> erc721Receiver w b \<longrightarrow>
        (\<exists>w2. checkAndMintBadge w now b = Inr w2 \<and> badge w2 \<noteq> badge w))
   \<and> (hasBadge (badge (run (deploy d pa tok rcv) cs)) b \<longrightarrow>
        checkAndMintBadge (run (deploy d pa tok rcv) cs) now b
          = Inr (run (deploy d pa tok rcv) cs)
        \<and> (\<exists>!t. nftOwners (badge (run (deploy d pa tok rcv) cs)) t = b))
   \<and> (\<not> hasBadge (badge (run (deploy d pa tok rcv) cs)) b \<and> b \<noteq> 0 \<longrightarrow>
        nftOwners (badge (run (deploy d pa tok rcv) cs)) t \<noteq> b)"
proof -
  have again: "checkAndMintBadge w now b = Inr w1 \<Longrightarrow> checkAndMintBadge w1 now' b = Inr w1"
    by (rule checkAndMintBadge_again)
  have minted: "checkAndMintBadge w now b = Inr w1 \<Longrightarrow> badge w1 \<noteq> badge w \<Longrightarrow>
         3 \<le> successfulRepayments (creditProfiles (registry w) b)
         \<and> defaultedLoans (creditProfiles (registry w) b) = 0
         \<and> nftBalances (badge w) b = 0 \<and> nftBalances (badge w1) b = 1
         \<and> hasBadge (badge w1) b
         \<and> nextTokenId (badge w1) = nextTokenId (badge w) + 1"
    by (rule checkAndMintBadge_minted)
  have stored: "checkAndMintBadge w now b = Inr w1 \<Longrightarrow> badge w1 \<noteq> badge w \<Longrightarrow>
         nftOwners (badge w1) = (nftOwners (badge w))(nextTokenId (badge w) := b)
         \<and> badges (badge w1) = (badges (badge w))(nextTokenId (badge w) :=
              \<lparr>creditScore = score (creditProfiles (registry w) b),
               repaymentsCount = successfulRepayments (creditProfiles (registry w) b),
               mintedAt = now,
               tier = determineTier (score (creditProfiles (registry w) b))
                        (successfulRepayments (creditProfiles (registry w) b))\<rparr>)"
    by (rule checkAndMintBadge_stored)
  have mints: "\<exists>w2. checkAndMintBadge w now b = Inr w2 \<and> badge w2 \<noteq> badge w"
    if "senteBadge (pool w) \<noteq> 0 \<and> b \<noteq> 0
      \<and> nftBalances (badge w) b = 0 \<and> \<not> hasBadge (badge w) b
      \<and> 3 \<le> successfulRepayments (creditProfiles (registry w) b)
      \<and> defaultedLoans (creditProfiles (registry w) b) = 0
      \<and> 60 \<le> score (creditProfiles (registry w) b)
      \<and> (authorizedMinters (badge w) (poolAddr w) \<or> poolAddr w = badgeOwner (badge w))
      \<and> nextTokenId (badge w) < MAX_UINT256
      \<and> nftOwners (badge w) (nextTokenId (badge w)) = 0
      \<and> erc721Receiver w b"
    using that by (intro checkAndMintBadge_mints) simp_all
  have binv: "badgeInv (badge (run (deploy d pa tok rcv) cs))"
    by (rule badgeInv_run [OF badgeInv_deploy])
  have oinv: "ownersInv (badge (run (deploy d pa tok rcv) cs))"
    by (rule ownersInv_run [OF ownersInv_deploy])
  have holder: "checkAndMintBadge (run (deploy d pa tok rcv) cs) now b
          = Inr (run (deploy d pa tok rcv) cs)
        \<and> (\<exists>!t. nftOwners (badge (run (deploy d pa tok rcv) cs)) t = b)"
    if h: "hasBadge (badge (run (deploy d pa tok rcv) cs)) b"
  proof -
    from h binv have "b \<noteq> 0" "0 < nftBalances (badge (run (deploy d pa tok rcv) cs)) b"
      by (auto simp: badgeInv_def)
    then have "checkAndMintBadge (run (deploy d pa tok rcv) cs) now b
          = Inr (run (deploy d pa tok rcv) cs)"
      by (rule checkAndMintBadge_holder)
    with ownersInv_unique [OF oinv h] show ?thesis by simp
  qed
  have none: "nftOwners (badge (run (deploy d pa tok rcv) cs)) t \<noteq> b"
    if "\<not> hasBadge (badge (run (deploy d pa tok rcv) cs)) b \<and> b \<noteq> 0"
    using that ownersInv_none [OF oinv, of b t] by simp
  from again minted stored mints holder none show ?thesis by blast
qed

theorem checkAndMintBadge_idempotent_witness:
  "\<exists>w1. checkAndMintBadge (run exDeployed exMintReady) 400 2 = Inr w1
      \<and> badge w1 \<noteq> badge (run exDeployed exMintReady)
      \<and> checkAndMintBadge w1 500 2 = Inr w1
      \<and> nftBalances (badge w1) 2 = 1
      \<and> nftOwners (badge w1) 1 = 2
      \<and> badges (badge w1) 1 =
           \<lparr>creditScore = 81, repaymentsCount = 3, mintedAt = 400, tier = ''Bronze''\<rparr>
      \<and> 3 \<le> successfulRepayments (creditProfiles (registry (run exDeployed exMintReady)) 2)
      \<and> hasBadge (badge (run exDeployed exThreeCycles)) 2
      \<and> checkAndMintBadge (run exDeployed exThreeCycles) 400 2 = Inr (run exDeployed exThreeCycles)
      \<and> (\<exists>!t. nftOwners (badge (run exDeployed exThreeCycles)) t = 2)
      \<and> \<not> hasBadge (badge (run exDeployed exThreeCycles)) 3
      \<and> nftOwners (badge (run exDeployed exThreeCycles)) 1 \<noteq> 3"
proof -
  have pre: "senteBadge (pool (run exDeployed exMintReady)) \<noteq> 0 \<and> (2::nat) \<noteq> 0
      \<and> nftBalances (badge (run exDeployed exMintReady)) 2 = 0
      \<and> \<not> hasBadge (badge (run exDeployed exMintReady)) 2
      \<and> 3 \<le> successfulRepayments (creditProfiles (registry (run exDeployed exMintReady)) 2)
      \<and> defaultedLoans (creditProfiles (registry (run exDeployed exMintReady)) 2) = 0
      \<and> 60 \<le> score (creditProfiles (registry (run exDeployed exMintReady)) 2)
      \<and> (authorizedMinters (badge (run exDeployed exMintReady)) (poolAddr (run exDeployed exMintReady))
          \<or> poolAddr (run exDeployed exMintReady) = badgeOwner (badge (run exDeployed exMintReady)))
      \<and> nextTokenId (badge (run exDeployed exMintReady)) < MAX_UINT256
      \<and> nftOwners (badge (run exDeployed exMintReady)) (nextTokenId (badge (run exDeployed exMintReady))) = 0
      \<and> erc721Receiver (run exDeployed exMintReady) 2"
    by (simp add: eval_defs exMintReady_def)
  have v: "nextTokenId (badge (run exDeployed exMintReady)) = 1"
    "score (creditProfiles (registry (run exDeployed exMintReady)) 2) = 81"
    "successfulRepayments (creditProfiles (registry (run exDeployed exMintReady)) 2) = 3"
    by (simp_all add: eval_defs exMintReady_def)
  have tier: "determineTier 81 3 = ''Bronze''"
    by (simp add: determineTier_def)
  have h: "hasBadge (badge (run exDeployed exThreeCycles)) 2"
    "\<not> hasBadge (badge (run exDeployed exThreeCycles)) 3 \<and> (3::nat) \<noteq> 0"
    by (simp_all add: eval_defs exThreeCycles_def)
  note T = checkAndMintBadge_idempotent
         [where w = "run exDeployed exMintReady" and now = 400 and now' = 500
            and d = 1 and pa = 10 and tok = exToken and rcv = "\<lambda>_. True"
            and cs = exThreeCycles, folded exDeployed_def]
  from T [where b = 2 and ?w1.0 = undefined and t = 1] pre
  obtain w1 where m: "checkAndMintBadge (run exDeployed exMintReady) 400 2 = Inr w1"
    and n: "badge w1 \<noteq> badge (run exDeployed exMintReady)"
    by blast
  from T [where b = 2 and ?w1.0 = w1 and t = 1] m n h(1)
  have r: "checkAndMintBadge w1 500 2 = Inr w1"
    "nftBalances (badge w1) 2 = 1"
    "nftOwners (badge w1) = (nftOwners (badge (run exDeployed exMintReady)))(1 := 2)"
    "badges (badge w1) = (badges (badge (run exDeployed exMintReady)))(1 :=
        \<lparr>creditScore = 81, repaymentsCount = 3, mintedAt = 400, tier = ''Bronze''\<rparr>)"
    "checkAndMintBadge (run exDeployed exThreeCycles) 400 2 = Inr (run exDeployed exThreeCycles)"
    "\<exists>!t. nftOwners (badge (run exDeployed exThreeCycles)) t = 2"
    unfolding v tier by blast+
  from T [where b = 3 and ?w1.0 = w1 and t = 1] h(2)
  have z: "nftOwners (badge (run exDeployed exThreeCycles)) 1 \<noteq> 3"
    by blast
  from m n r z h v show ?thesis
    by (intro exI [of _ w1]) simp
qed

end
